theory Spec2Isabelle
  imports Complex_Main
begin

section \<open>Shared vocabulary of the two power notebooks\<close>

text \<open>
  The repository consists of two notebooks. The distance-based one (PERMANOVA and Mantel)
  defines two wrapper functions and a loop over replicates and test families; the
  parametric one builds a table of test families and loops over families and replicates.
  Both call \<^verbatim>\<open>machivellian.power.subsample_power\<close>, the statistical tests of scipy and
  scikit-bio, and the file system. Those collaborators are parameters of the model: records
  of functions. Whatever draws random numbers takes the generator's state and returns the
  new one; whatever can raise returns a sum, \<open>Inl\<close> the exception.
\<close>

datatype error =
    ValueError string
  | FileNotFoundError string nat
  | KeyError string
  | IndexError
  | AttributeError
  | TypeError
  | Raised string

text \<open>
  \<^verbatim>\<open>np.arange(start, stop, step)\<close> on integers, for a positive step: the values
  \<open>start + k * step\<close> for \<open>k\<close> below the ceiling of \<open>(stop - start) / step\<close>, and no
  value when \<open>stop \<le> start\<close>.
\<close>

definition arange :: "int \<Rightarrow> int \<Rightarrow> int \<Rightarrow> int list" where
  "arange start stop step =
     map (\<lambda>k. start + int k * step) [0..<nat ((stop - start + step - 1) div step)]"

text \<open>\<^verbatim>\<open>np.hstack\<close> of a list of one-dimensional arrays.\<close>

definition hstack :: "'a list list \<Rightarrow> 'a list" where
  "hstack ids = concat ids"

text \<open>
  \<^verbatim>\<open>os.path.join(a, b)\<close> for the two-argument calls of the notebooks: an absolute
  second part replaces the first, otherwise one separator stands between them.
\<close>

definition os_path_join :: "string \<Rightarrow> string \<Rightarrow> string" where
  "os_path_join a b =
     (if b \<noteq> [] \<and> hd b = CHR ''/'' then b
      else if a = [] \<or> last a = CHR ''/'' then a @ b
      else a @ ''/'' @ b)"

text \<open>
  A pickle file of a replicate is addressed by its directory and the replicate's index:
  \<open>(d, i)\<close> stands for \<^verbatim>\<open>os.path.join(d, 'simulation_%i.p' % i)\<close>.
\<close>

type_synonym path = "string \<times> nat"

subsection \<open>The call of the power estimator\<close>

datatype draw_mode = Independent | Matched

text \<open>
  The keyword arguments of one call of \<^verbatim>\<open>subsample_power\<close>, apart from the test
  function. An argument the call site leaves out is \<open>None\<close>.
\<close>

record 'a power_kwargs =
  kw_samples :: "'a list list"
  kw_counts :: "int list"
  kw_num_iter :: nat
  kw_num_runs :: nat
  kw_alpha :: "real option"
  kw_bootstrap :: "bool option"
  kw_draw_mode :: "draw_mode option"




text \<open>
  A test maps the samples to a p-value; it may raise and it may draw random numbers.
  The estimator takes the test and the keyword arguments.
\<close>

type_synonym ('a, 'p, 'w) test = "'a list list \<Rightarrow> 'w \<Rightarrow> (error + 'p) \<times> 'w"

type_synonym ('a, 'p, 'c, 'w) estimator =
  "('a, 'p, 'w) test \<Rightarrow> 'a power_kwargs \<Rightarrow> 'w \<Rightarrow> (error + 'c) \<times> 'w"

subsection \<open>Pickled objects and the world\<close>

text \<open>
  The summary dictionary both notebooks pickle, under the keys of the source, each prefixed with \<open>ps_\<close>. The value
  of \<^verbatim>\<open>'traditional'\<close> is Python's \<^verbatim>\<open>None\<close> in the distance-based notebook; the key
  \<^verbatim>\<open>'depth'\<close> is present in the Mantel summary only.
\<close>

record ('p, 'c) power_summary =
  ps_emperical :: 'c
  ps_traditional :: "'c option"
  ps_original_p :: 'p
  ps_num_obs :: nat
  ps_counts :: "int list"
  ps_alpha :: real
  ps_depth :: "nat option"

text \<open>
  A pickle holds a simulation (a dictionary with the key \<^verbatim>\<open>'samples'\<close>) or a summary.
\<close>

datatype ('s, 'p, 'c) pickle = SimulationPickle 's | SummaryPickle "('p, 'c) power_summary"

datatype 'a event =
    Loaded string nat
  | Printed string
  | Invoked "'a power_kwargs"
  | Wrote string nat

text \<open>
  The world a notebook runs in: the directories that exist, the pickle files, the state of
  numpy's global random generator, and the trace of what the run has done so far (files
  loaded, estimator calls, files written), oldest first.
\<close>

record ('a, 's, 'p, 'c, 'w) world =
  dirs :: "string set"
  files :: "path \<Rightarrow> ('s, 'p, 'c) pickle option"
  rng :: 'w
  trace :: "'a event list"

text \<open>
  A step of a notebook either raises, leaving the world as it is at that moment, or
  returns a value and the new world.
\<close>

type_synonym ('x, 'a, 's, 'p, 'c, 'w) result =
  "(error \<times> ('a, 's, 'p, 'c, 'w) world) + ('x \<times> ('a, 's, 'p, 'c, 'w) world)"

definition log_event :: "'a event \<Rightarrow> ('a, 's, 'p, 'c, 'w) world \<Rightarrow> ('a, 's, 'p, 'c, 'w) world" where
  "log_event e st = st\<lparr>trace := trace st @ [e]\<rparr>"

text \<open>
  The estimator calls a trace records, and the calls made between two worlds of one run:
  those recorded after the events the earlier world already had.
\<close>

fun invocations :: "'a event list \<Rightarrow> 'a power_kwargs list" where
  "invocations [] = []"
| "invocations (Invoked kw # evs) = kw # invocations evs"
| "invocations (e # evs) = invocations evs"

definition calls_made ::
  "('a, 's, 'p, 'c, 'w) world \<Rightarrow> ('a, 's, 'p, 'c, 'w) world \<Rightarrow> 'a power_kwargs list" where
  "calls_made st st' = invocations (drop (length (trace st)) (trace st'))"

text \<open>Calling a collaborator that uses the random generator.\<close>

definition with_rng ::
  "('w \<Rightarrow> (error + 'x) \<times> 'w) \<Rightarrow> ('a, 's, 'p, 'c, 'w) world \<Rightarrow> ('x, 'a, 's, 'p, 'c, 'w) result" where
  "with_rng f st =
     (case f (rng st) of
        (Inl e, w) \<Rightarrow> Inl (e, st\<lparr>rng := w\<rparr>)
      | (Inr x, w) \<Rightarrow> Inr (x, st\<lparr>rng := w\<rparr>))"

text \<open>
  \<^verbatim>\<open>with open(fp, 'rb') as f_: pickle.load(f_)\<close>: a missing file raises.
\<close>

definition load_pickle ::
  "path \<Rightarrow> ('a, 's, 'p, 'c, 'w) world \<Rightarrow> (('s, 'p, 'c) pickle, 'a, 's, 'p, 'c, 'w) result" where
  "load_pickle fp st =
     (case files st fp of
        None \<Rightarrow> Inl (FileNotFoundError (fst fp) (snd fp), st)
      | Some obj \<Rightarrow> Inr (obj, log_event (Loaded (fst fp) (snd fp)) st))"

text \<open>
  \<^verbatim>\<open>with open(fp, 'wb') as f_: pickle.dump(summary, f_)\<close>. The notebooks create the
  output directory before the loop, so the write is modelled as succeeding.
\<close>

definition dump_pickle ::
  "path \<Rightarrow> ('p, 'c) power_summary \<Rightarrow> ('a, 's, 'p, 'c, 'w) world \<Rightarrow> ('a, 's, 'p, 'c, 'w) world" where
  "dump_pickle fp summary st =
     log_event (Wrote (fst fp) (snd fp)) (st\<lparr>files := (files st)(fp \<mapsto> SummaryPickle summary)\<rparr>)"

text \<open>\<^verbatim>\<open>os.path.exists\<close> on a pickle file and on a directory.\<close>

definition file_exists :: "path \<Rightarrow> ('a, 's, 'p, 'c, 'w) world \<Rightarrow> bool" where
  "file_exists fp st = (files st fp \<noteq> None)"

definition dir_exists :: "string \<Rightarrow> ('a, 's, 'p, 'c, 'w) world \<Rightarrow> bool" where
  "dir_exists d st = (d \<in> dirs st)"

text \<open>
  \<^verbatim>\<open>if not os.path.exists(d): os.makedirs(d)\<close>. The intermediate directories that
  \<^verbatim>\<open>makedirs\<close> creates as well are never looked at by the notebooks and are left out.
\<close>

definition ensure_dir :: "string \<Rightarrow> ('a, 's, 'p, 'c, 'w) world \<Rightarrow> ('a, 's, 'p, 'c, 'w) world" where
  "ensure_dir d st = (if \<not> dir_exists d st then st\<lparr>dirs := insert d (dirs st)\<rparr> else st)"

text \<open>
  A \<^verbatim>\<open>for\<close> loop whose body may raise: the first exception ends the loop, and the world
  stays as it was when the exception was raised.
\<close>

fun for_each ::
  "('i \<Rightarrow> 'st \<Rightarrow> ('e \<times> 'st) + 'st) \<Rightarrow> 'i list \<Rightarrow> 'st \<Rightarrow> ('e \<times> 'st) + 'st" where
  "for_each body [] st = Inr st"
| "for_each body (x # xs) st =
     (case body x st of Inl failure \<Rightarrow> Inl failure | Inr st' \<Rightarrow> for_each body xs st')"

text \<open>The world a run ends in, whether it raised or not.\<close>

definition final_world :: "('e \<times> 'st) + 'st \<Rightarrow> 'st" where
  "final_world r = (case r of Inl (e, st) \<Rightarrow> st | Inr st \<Rightarrow> st)"

text \<open>
  What one work item may do to the world, for the proofs: it leaves the directories alone,
  it only adds to the trace, and it leaves the files alone or writes one summary, at \<open>fp\<close>.
\<close>

definition writes_at ::
  "path \<Rightarrow> ('a, 's, 'p, 'c, 'w) world \<Rightarrow> ('a, 's, 'p, 'c, 'w) world \<Rightarrow> bool" where
  "writes_at fp st st' \<longleftrightarrow>
     dirs st' = dirs st \<and> (\<exists>evs. trace st' = trace st @ evs) \<and>
     (files st' = files st \<or> (\<exists>s. files st' = (files st)(fp \<mapsto> SummaryPickle s)))"


text \<open>\<^verbatim>\<open>min([len(s) for s in samples])\<close>, on a list that is not empty.\<close>

definition min_group_size :: "'a list list \<Rightarrow> nat" where
  "min_group_size samples = min_list (map length samples)"

section \<open>The distance-based notebook\<close>

subsection \<open>Collaborators and inputs\<close>

text \<open>
  scikit-bio: the identifiers of a distance matrix, \<^verbatim>\<open>DistanceMatrix.filter\<close> (which
  raises on an identifier the matrix does not have), and the two permutation tests, each
  returning its p-value.
\<close>

record ('dm, 'id, 'p, 'w) skbio =
  dm_ids :: "'dm \<Rightarrow> 'id list"
  dm_filter :: "'dm \<Rightarrow> 'id list \<Rightarrow> error + 'dm"
  permanova :: "'dm \<Rightarrow> ('id \<times> int) list \<Rightarrow> nat \<Rightarrow> 'w \<Rightarrow> (error + 'p) \<times> 'w"
  mantel :: "'dm \<Rightarrow> 'dm \<Rightarrow> nat \<Rightarrow> 'w \<Rightarrow> (error + 'p) \<times> 'w"

text \<open>
  The value under \<^verbatim>\<open>'samples'\<close> of a simulation: a distance matrix with a grouping
  series (the rows of the series in index order, each an identifier and its label) for
  PERMANOVA, two distance matrices for Mantel.
\<close>

datatype ('dm, 'id) dist_samples = GroupedMatrix 'dm "('id \<times> int) list" | MatrixPair 'dm 'dm

text \<open>
  The settings of the notebook's first cells. The number of worker processes is 1 as in
  the source: \<^verbatim>\<open>Pool.apply\<close> blocks until the single worker has run the call and
  re-raises what the call raised, so the loop is sequential, and the random generator of
  the model is the worker's.
\<close>

record dist_config =
  cfg_overwrite :: bool
  cfg_num_rounds :: nat
  cfg_sim_location :: string
  cfg_depth :: nat
  cfg_alpha :: real

definition dist_settings :: dist_config where
  "dist_settings =
     \<lparr>cfg_overwrite = False, cfg_num_rounds = 100, cfg_sim_location = ''./simulations/'',
      cfg_depth = 99, cfg_alpha = 5 / 100\<rparr>"

datatype family = Mantel | Permanova

fun family_name :: "family \<Rightarrow> string" where
  "family_name Mantel = ''mantel''"
| "family_name Permanova = ''permanova''"

fun sim_dir :: "dist_config \<Rightarrow> family \<Rightarrow> string" where
  "sim_dir cfg Mantel = os_path_join (cfg_sim_location cfg) ''data/mantel''"
| "sim_dir cfg Permanova = os_path_join (cfg_sim_location cfg) ''data/permanova''"

fun power_dir :: "dist_config \<Rightarrow> family \<Rightarrow> string" where
  "power_dir cfg Mantel = os_path_join (cfg_sim_location cfg) ''power/mantel/''"
| "power_dir cfg Permanova = os_path_join (cfg_sim_location cfg) ''power/permanova/''"

subsection \<open>calculate\_permanova\_power\<close>

text \<open>\<^verbatim>\<open>groups.loc[groups == i].index\<close>: the identifiers of the rows labelled \<open>i\<close>.\<close>

definition ids_with_label :: "('id \<times> int) list \<Rightarrow> int \<Rightarrow> 'id list" where
  "ids_with_label groups i = map fst (filter (\<lambda>row. snd row = i) groups)"

definition permanova_samples :: "('id \<times> int) list \<Rightarrow> 'id list list" where
  "permanova_samples groups = map (ids_with_label groups) [0, 1]"

definition permanova_counts :: "'id list list \<Rightarrow> int list" where
  "permanova_counts samples = arange 5 (int (min_group_size samples) - 10) 10"

text \<open>\<^verbatim>\<open>groups.loc[obs]\<close>: the rows of the identifiers \<open>obs\<close>, in the order of \<open>obs\<close>.\<close>

definition loc :: "('id \<times> int) list \<Rightarrow> 'id list \<Rightarrow> ('id \<times> int) list" where
  "loc groups obs = concat (map (\<lambda>x. filter (\<lambda>row. fst row = x) groups) obs)"

definition permanova_test ::
  "('dm, 'id, 'p, 'w) skbio \<Rightarrow> 'dm \<Rightarrow> ('id \<times> int) list \<Rightarrow> nat \<Rightarrow> ('id, 'p, 'w) test" where
  "permanova_test sk dm groups depth ids w =
     (let obs = hstack ids in
      case dm_filter sk dm obs of
        Inl e \<Rightarrow> (Inl e, w)
      | Inr dm' \<Rightarrow> permanova sk dm' (loc groups obs) depth w)"

definition permanova_kwargs :: "('id \<times> int) list \<Rightarrow> real \<Rightarrow> 'id power_kwargs" where
  "permanova_kwargs groups alpha =
     \<lparr>kw_samples = permanova_samples groups,
      kw_counts = permanova_counts (permanova_samples groups),
      kw_num_iter = 100,
      kw_num_runs = 5,
      kw_alpha = Some alpha,
      kw_bootstrap = Some False,
      kw_draw_mode = None\<rparr>"

definition permanova_summary ::
  "('id \<times> int) list \<Rightarrow> real \<Rightarrow> 'c \<Rightarrow> 'p \<Rightarrow> ('p, 'c) power_summary" where
  "permanova_summary groups alpha pwr p =
     \<lparr>ps_emperical = pwr,
      ps_traditional = None,
      ps_original_p = p,
      ps_num_obs = length (permanova_samples groups ! 0),
      ps_counts = permanova_counts (permanova_samples groups),
      ps_alpha = alpha,
      ps_depth = None\<rparr>"

text \<open>
  The wrapper. A pickle that holds no \<^verbatim>\<open>'samples'\<close> raises at the lookup; a second
  component that is no grouping series raises at \<^verbatim>\<open>groups.loc\<close>, before anything is
  computed.
\<close>

definition calculate_permanova_power ::
  "('dm, 'id, 'p, 'w) skbio \<Rightarrow> ('id, 'p, 'c, 'w) estimator \<Rightarrow>
   (('dm, 'id) dist_samples, 'p, 'c) pickle \<Rightarrow> real \<Rightarrow> nat \<Rightarrow> path \<Rightarrow>
   ('id, ('dm, 'id) dist_samples, 'p, 'c, 'w) world \<Rightarrow>
   (error \<times> ('id, ('dm, 'id) dist_samples, 'p, 'c, 'w) world) +
     ('id, ('dm, 'id) dist_samples, 'p, 'c, 'w) world" where
  "calculate_permanova_power sk subsample_power simulation alpha depth power_fp st =
     (case simulation of
        SummaryPickle summary \<Rightarrow> Inl (KeyError ''samples'', st)
      | SimulationPickle (MatrixPair x y) \<Rightarrow> Inl (AttributeError, st)
      | SimulationPickle (GroupedMatrix dm groups) \<Rightarrow>
          (let test = permanova_test sk dm groups depth;
               kw = permanova_kwargs groups alpha
           in case with_rng (subsample_power test kw) (log_event (Invoked kw) st) of
                Inl failure \<Rightarrow> Inl failure
              | Inr (pwr, st1) \<Rightarrow>
                  (case with_rng (test (permanova_samples groups)) st1 of
                     Inl failure \<Rightarrow> Inl failure
                   | Inr (p, st2) \<Rightarrow>
                       Inr (dump_pickle power_fp (permanova_summary groups alpha pwr p) st2))))"

subsection \<open>calculate\_mantel\_power\<close>

text \<open>
  The test takes the first (and only) sample as the identifiers to keep in both matrices.
  The second matrix is \<open>None\<close> when the simulation's second component is no distance
  matrix: the test then raises where scikit-bio is handed it.
\<close>

definition mantel_test ::
  "('dm, 'id, 'p, 'w) skbio \<Rightarrow> 'dm \<Rightarrow> 'dm option \<Rightarrow> nat \<Rightarrow> ('id, 'p, 'w) test" where
  "mantel_test sk x y depth samples w =
     (case samples of
        [] \<Rightarrow> (Inl IndexError, w)
      | obs # rest \<Rightarrow>
          (case dm_filter sk x obs of
             Inl e \<Rightarrow> (Inl e, w)
           | Inr x' \<Rightarrow>
               (case y of
                  None \<Rightarrow> (Inl TypeError, w)
                | Some y0 \<Rightarrow>
                    (case dm_filter sk y0 obs of
                       Inl e \<Rightarrow> (Inl e, w)
                     | Inr y' \<Rightarrow> mantel sk x' y' depth w))))"

definition mantel_counts :: "'id list list \<Rightarrow> int list" where
  "mantel_counts samples = arange 5 (int (length (samples ! 0)) - 10) 10"

definition mantel_kwargs :: "'id list \<Rightarrow> real \<Rightarrow> 'id power_kwargs" where
  "mantel_kwargs ids alpha =
     \<lparr>kw_samples = [ids],
      kw_counts = mantel_counts [ids],
      kw_num_iter = 100,
      kw_num_runs = 5,
      kw_alpha = Some alpha,
      kw_bootstrap = Some False,
      kw_draw_mode = Some Matched\<rparr>"

definition mantel_summary ::
  "'id list \<Rightarrow> real \<Rightarrow> nat \<Rightarrow> 'c \<Rightarrow> 'p \<Rightarrow> ('p, 'c) power_summary" where
  "mantel_summary ids alpha depth pwr p =
     \<lparr>ps_emperical = pwr,
      ps_traditional = None,
      ps_original_p = p,
      ps_num_obs = length ([ids] ! 0),
      ps_counts = mantel_counts [ids],
      ps_alpha = alpha,
      ps_depth = Some depth\<rparr>"

fun matrix_pair :: "('dm, 'id) dist_samples \<Rightarrow> 'dm \<times> 'dm option" where
  "matrix_pair (MatrixPair x y) = (x, Some y)"
| "matrix_pair (GroupedMatrix dm groups) = (dm, None)"

definition calculate_mantel_power ::
  "('dm, 'id, 'p, 'w) skbio \<Rightarrow> ('id, 'p, 'c, 'w) estimator \<Rightarrow>
   (('dm, 'id) dist_samples, 'p, 'c) pickle \<Rightarrow> path \<Rightarrow> real \<Rightarrow> nat \<Rightarrow>
   ('id, ('dm, 'id) dist_samples, 'p, 'c, 'w) world \<Rightarrow>
   (error \<times> ('id, ('dm, 'id) dist_samples, 'p, 'c, 'w) world) +
     ('id, ('dm, 'id) dist_samples, 'p, 'c, 'w) world" where
  "calculate_mantel_power sk subsample_power simulation power_fp alpha depth st =
     (case simulation of
        SummaryPickle summary \<Rightarrow> Inl (KeyError ''samples'', st)
      | SimulationPickle s \<Rightarrow>
          (let (x, y) = matrix_pair s;
               ids = dm_ids sk x;
               test = mantel_test sk x y depth;
               kw = mantel_kwargs ids alpha
           in case with_rng (subsample_power test kw) (log_event (Invoked kw) st) of
                Inl failure \<Rightarrow> Inl failure
              | Inr (pwr, st1) \<Rightarrow>
                  (case with_rng (test [ids]) st1 of
                     Inl failure \<Rightarrow> Inl failure
                   | Inr (p, st2) \<Rightarrow>
                       Inr (dump_pickle power_fp (mantel_summary ids alpha depth pwr p) st2))))"

subsection \<open>The loop over replicates and families\<close>

text \<open>
  \<^verbatim>\<open>distributions[test]['function']\<close>, called through \<^verbatim>\<open>p.apply\<close> with the keyword
  arguments \<^verbatim>\<open>simulation\<close>, \<^verbatim>\<open>alpha\<close>, \<^verbatim>\<open>depth\<close> and \<^verbatim>\<open>power_fp\<close>.
\<close>

fun sim_func ::
  "family \<Rightarrow> ('dm, 'id, 'p, 'w) skbio \<Rightarrow> ('id, 'p, 'c, 'w) estimator \<Rightarrow>
   (('dm, 'id) dist_samples, 'p, 'c) pickle \<Rightarrow> real \<Rightarrow> nat \<Rightarrow> path \<Rightarrow>
   ('id, ('dm, 'id) dist_samples, 'p, 'c, 'w) world \<Rightarrow>
   (error \<times> ('id, ('dm, 'id) dist_samples, 'p, 'c, 'w) world) +
     ('id, ('dm, 'id) dist_samples, 'p, 'c, 'w) world" where
  "sim_func Mantel sk est simulation alpha depth power_fp st =
     calculate_mantel_power sk est simulation power_fp alpha depth st"
| "sim_func Permanova sk est simulation alpha depth power_fp st =
     calculate_permanova_power sk est simulation alpha depth power_fp st"

text \<open>
  The body of the inner loop for the family \<open>t\<close> and the replicate \<open>i\<close>: the simulation is
  loaded first, the output is looked for afterwards.
\<close>

definition distance_item ::
  "('dm, 'id, 'p, 'w) skbio \<Rightarrow> ('id, 'p, 'c, 'w) estimator \<Rightarrow> dist_config \<Rightarrow> nat \<Rightarrow> family \<Rightarrow>
   ('id, ('dm, 'id) dist_samples, 'p, 'c, 'w) world \<Rightarrow>
   (error \<times> ('id, ('dm, 'id) dist_samples, 'p, 'c, 'w) world) +
     ('id, ('dm, 'id) dist_samples, 'p, 'c, 'w) world" where
  "distance_item sk est cfg i t st =
     (case load_pickle (sim_dir cfg t, i) st of
        Inl failure \<Rightarrow> Inl failure
      | Inr (simulation, st1) \<Rightarrow>
          (let power_fp = (power_dir cfg t, i) in
           if cfg_overwrite cfg \<or> \<not> file_exists power_fp st1
           then sim_func t sk est simulation (cfg_alpha cfg) (cfg_depth cfg) power_fp
                  (log_event (Printed (family_name t @ '' sim is a go!'')) st1)
           else Inr st1))"

text \<open>
  \<open>order\<close> is the order in which \<^verbatim>\<open>distributions.items()\<close> yields the families; the
  Python of the notebook (3.5) does not fix it.
\<close>

definition distance_loop ::
  "('dm, 'id, 'p, 'w) skbio \<Rightarrow> ('id, 'p, 'c, 'w) estimator \<Rightarrow> dist_config \<Rightarrow> family list \<Rightarrow>
   ('id, ('dm, 'id) dist_samples, 'p, 'c, 'w) world \<Rightarrow>
   (error \<times> ('id, ('dm, 'id) dist_samples, 'p, 'c, 'w) world) +
     ('id, ('dm, 'id) dist_samples, 'p, 'c, 'w) world" where
  "distance_loop sk est cfg order st =
     for_each (\<lambda>i. for_each (distance_item sk est cfg i) order) [0..<cfg_num_rounds cfg] st"

text \<open>The start-up check of both notebooks, each with its own message.\<close>

definition check_sim_location ::
  "string \<Rightarrow> string \<Rightarrow> ('a, 's, 'p, 'c, 'w) world \<Rightarrow>
   (error \<times> ('a, 's, 'p, 'c, 'w) world) + ('a, 's, 'p, 'c, 'w) world" where
  "check_sim_location sim_location message st =
     (if \<not> dir_exists sim_location st then Inl (ValueError message, st) else Inr st)"

definition make_dist_dirs ::
  "dist_config \<Rightarrow> family list \<Rightarrow> ('a, 's, 'p, 'c, 'w) world \<Rightarrow> ('a, 's, 'p, 'c, 'w) world" where
  "make_dist_dirs cfg order st =
     fold (\<lambda>t st'. ensure_dir (power_dir cfg t) (ensure_dir (sim_dir cfg t) st')) order st"

text \<open>
  The notebook run from top to bottom: seed the generator, check the simulations
  directory, create the directories, loop. \<open>seed\<close> is \<^verbatim>\<open>np.random.seed\<close>.
\<close>

definition distance_notebook ::
  "(nat \<Rightarrow> 'w) \<Rightarrow> ('dm, 'id, 'p, 'w) skbio \<Rightarrow> ('id, 'p, 'c, 'w) estimator \<Rightarrow> dist_config \<Rightarrow>
   family list \<Rightarrow> ('id, ('dm, 'id) dist_samples, 'p, 'c, 'w) world \<Rightarrow>
   (error \<times> ('id, ('dm, 'id) dist_samples, 'p, 'c, 'w) world) +
     ('id, ('dm, 'id) dist_samples, 'p, 'c, 'w) world" where
  "distance_notebook seed sk est cfg order st =
     (case check_sim_location (cfg_sim_location cfg)
             ''The simulations do not exist. Go back and simulate some data!''
             (st\<lparr>rng := seed 25\<rparr>) of
        Inl failure \<Rightarrow> Inl failure
      | Inr st1 \<Rightarrow> distance_loop sk est cfg order (make_dist_dirs cfg order st1))"

section \<open>The parametric notebook\<close>

subsection \<open>Collaborators and settings\<close>

text \<open>
  The scipy tests, each reduced to its p-value (the second component of what scipy
  returns), and the closed-form power functions of \<^verbatim>\<open>machivellian.traditional\<close>, which
  take the samples as positional arguments and the counts by keyword.
\<close>

record ('v, 'p) scipy_stats =
  ttest_1samp :: "'v list \<Rightarrow> int \<Rightarrow> error + 'p"
  ttest_ind :: "'v list \<Rightarrow> 'v list \<Rightarrow> error + 'p"
  f_oneway :: "'v list list \<Rightarrow> error + 'p"
  pearsonr :: "'v list list \<Rightarrow> error + 'p"

record ('v, 'c) trad =
  calc_ttest_1 :: "'v list list \<Rightarrow> int \<Rightarrow> int list \<Rightarrow> error + 'c"
  calc_ttest_ind :: "'v list list \<Rightarrow> int list \<Rightarrow> error + 'c"
  calc_anova :: "'v list list \<Rightarrow> int list \<Rightarrow> error + 'c"
  calc_pearson :: "'v list list \<Rightarrow> int list \<Rightarrow> error + 'c"

record par_config =
  par_num_rounds :: nat
  par_sim_location :: string
  par_overwrite :: bool
  par_counts :: "int list"
  par_alpha :: real
  par_num_iter :: nat
  par_run_runs :: nat

definition par_settings :: par_config where
  "par_settings =
     \<lparr>par_num_rounds = 100, par_sim_location = ''./simulations/'', par_overwrite = False,
      par_counts = arange 5 100 10, par_alpha = 5 / 100, par_num_iter = 100,
      par_run_runs = 5\<rparr>"

datatype par_family = Ttest_1 | Ttest_ind | Anova_3 | Anova_8 | Correlation

definition parametric_list :: "par_family list" where
  "parametric_list = [Ttest_1, Ttest_ind, Anova_3, Anova_8, Correlation]"

fun test_name :: "par_family \<Rightarrow> string" where
  "test_name Ttest_1 = ''ttest_1''"
| "test_name Ttest_ind = ''ttest_ind''"
| "test_name Anova_3 = ''anova_3''"
| "test_name Anova_8 = ''anova_8''"
| "test_name Correlation = ''correlation''"

subsection \<open>The empirical tests\<close>

definition emp_ttest_1 :: "('v, 'p) scipy_stats \<Rightarrow> 'v list list \<Rightarrow> error + 'p" where
  "emp_ttest_1 sc sample =
     (case sample of [] \<Rightarrow> Inl IndexError | s0 # rest \<Rightarrow> ttest_1samp sc s0 0)"

definition emp_ttest_ind :: "('v, 'p) scipy_stats \<Rightarrow> 'v list list \<Rightarrow> error + 'p" where
  "emp_ttest_ind sc samples =
     (case samples of
        [sample1, sample2] \<Rightarrow> ttest_ind sc sample1 sample2
      | _ \<Rightarrow> Inl (ValueError ''unpack''))"

definition emp_anova :: "('v, 'p) scipy_stats \<Rightarrow> 'v list list \<Rightarrow> error + 'p" where
  "emp_anova sc samples = f_oneway sc samples"

definition emp_pearson :: "('v, 'p) scipy_stats \<Rightarrow> 'v list list \<Rightarrow> error + 'p" where
  "emp_pearson sc samples = pearsonr sc samples"

subsection \<open>The table of test families\<close>

text \<open>\<^verbatim>\<open>distributions[test_name]['test']\<close>.\<close>

fun family_test :: "('v, 'p) scipy_stats \<Rightarrow> par_family \<Rightarrow> 'v list list \<Rightarrow> error + 'p" where
  "family_test sc Ttest_1 = emp_ttest_1 sc"
| "family_test sc Ttest_ind = emp_ttest_ind sc"
| "family_test sc Anova_3 = emp_anova sc"
| "family_test sc Anova_8 = emp_anova sc"
| "family_test sc Correlation = emp_pearson sc"

text \<open>\<^verbatim>\<open>distributions[test_name]['trad_power']\<close>, called as \<^verbatim>\<open>trad_calc(*samples)\<close>.\<close>

fun trad_power ::
  "('v, 'c) trad \<Rightarrow> par_config \<Rightarrow> par_family \<Rightarrow> 'v list list \<Rightarrow> error + 'c" where
  "trad_power tr cfg Ttest_1 samples = calc_ttest_1 tr samples 0 (par_counts cfg)"
| "trad_power tr cfg Ttest_ind samples = calc_ttest_ind tr samples (par_counts cfg)"
| "trad_power tr cfg Anova_3 samples = calc_anova tr samples (par_counts cfg)"
| "trad_power tr cfg Anova_8 samples = calc_anova tr samples (par_counts cfg)"
| "trad_power tr cfg Correlation samples = calc_pearson tr samples (par_counts cfg)"

text \<open>
  \<^verbatim>\<open>distributions[test_name]['empr_power']\<close>, called as \<^verbatim>\<open>emp_calc(samples=samples)\<close>:
  the keyword arguments the \<^verbatim>\<open>partial\<close> has bound, and the samples.
\<close>

fun empr_power_kwargs :: "par_config \<Rightarrow> par_family \<Rightarrow> 'v list list \<Rightarrow> 'v power_kwargs" where
  "empr_power_kwargs cfg Ttest_1 samples =
     \<lparr>kw_samples = samples, kw_counts = par_counts cfg, kw_num_iter = 1000, kw_num_runs = 3,
      kw_alpha = None, kw_bootstrap = None, kw_draw_mode = None\<rparr>"
| "empr_power_kwargs cfg Ttest_ind samples =
     \<lparr>kw_samples = samples, kw_counts = par_counts cfg, kw_num_iter = 1000, kw_num_runs = 3,
      kw_alpha = None, kw_bootstrap = None, kw_draw_mode = None\<rparr>"
| "empr_power_kwargs cfg Anova_3 samples =
     \<lparr>kw_samples = samples, kw_counts = par_counts cfg, kw_num_iter = 1000, kw_num_runs = 3,
      kw_alpha = None, kw_bootstrap = None, kw_draw_mode = None\<rparr>"
| "empr_power_kwargs cfg Anova_8 samples =
     \<lparr>kw_samples = samples, kw_counts = par_counts cfg, kw_num_iter = 1000, kw_num_runs = 3,
      kw_alpha = None, kw_bootstrap = None, kw_draw_mode = None\<rparr>"
| "empr_power_kwargs cfg Correlation samples =
     \<lparr>kw_samples = samples, kw_counts = par_counts cfg, kw_num_iter = 100, kw_num_runs = 5,
      kw_alpha = None, kw_bootstrap = None, kw_draw_mode = Some Matched\<rparr>"

text \<open>The scipy tests draw no random numbers.\<close>

definition pure_test :: "('v list list \<Rightarrow> error + 'p) \<Rightarrow> ('v, 'p, 'w) test" where
  "pure_test f samples w = (f samples, w)"

fun par_sim_dir :: "par_config \<Rightarrow> par_family \<Rightarrow> string" where
  "par_sim_dir cfg fam = os_path_join (par_sim_location cfg) (''data/'' @ test_name fam)"

fun par_power_dir :: "par_config \<Rightarrow> par_family \<Rightarrow> string" where
  "par_power_dir cfg fam = os_path_join (par_sim_location cfg) (''power/'' @ test_name fam)"

definition round_summary ::
  "par_config \<Rightarrow> 'c \<Rightarrow> 'c \<Rightarrow> 'v list \<Rightarrow> 'p \<Rightarrow> ('p, 'c) power_summary" where
  "round_summary cfg emp traditional sample0 p =
     \<lparr>ps_emperical = emp,
      ps_traditional = Some traditional,
      ps_original_p = p,
      ps_num_obs = length sample0,
      ps_counts = par_counts cfg,
      ps_alpha = par_alpha cfg,
      ps_depth = None\<rparr>"

subsection \<open>The loop over families and replicates\<close>

text \<open>
  The body of the inner loop: the output is looked for first, and an existing output
  skips the replicate before its simulation is opened. The values of the summary are
  evaluated in the order the dictionary display lists them, so \<^verbatim>\<open>len(samples[0])\<close>
  comes before \<^verbatim>\<open>test(samples)\<close>.
\<close>

definition parametric_item ::
  "('v, 'p) scipy_stats \<Rightarrow> ('v, 'c) trad \<Rightarrow> ('v, 'p, 'c, 'w) estimator \<Rightarrow> par_config \<Rightarrow>
   par_family \<Rightarrow> nat \<Rightarrow> ('v, 'v list list, 'p, 'c, 'w) world \<Rightarrow>
   (error \<times> ('v, 'v list list, 'p, 'c, 'w) world) + ('v, 'v list list, 'p, 'c, 'w) world" where
  "parametric_item sc tr subsample_power cfg fam i st =
     (let sim_fp = (par_sim_dir cfg fam, i);
          power_fp = (par_power_dir cfg fam, i)
      in if file_exists power_fp st \<and> \<not> par_overwrite cfg then Inr st
         else
           (case load_pickle sim_fp st of
              Inl failure \<Rightarrow> Inl failure
            | Inr (SummaryPickle summary, st1) \<Rightarrow> Inl (KeyError ''samples'', st1)
            | Inr (SimulationPickle samples, st1) \<Rightarrow>
                (case trad_power tr cfg fam samples of
                   Inl e \<Rightarrow> Inl (e, st1)
                 | Inr traditional \<Rightarrow>
                     (let kw = empr_power_kwargs cfg fam samples in
                      case with_rng (subsample_power (pure_test (family_test sc fam)) kw)
                             (log_event (Invoked kw) st1) of
                        Inl failure \<Rightarrow> Inl failure
                      | Inr (emp, st2) \<Rightarrow>
                          (case samples of
                             [] \<Rightarrow> Inl (IndexError, st2)
                           | sample0 # rest \<Rightarrow>
                               (case family_test sc fam samples of
                                  Inl e \<Rightarrow> Inl (e, st2)
                                | Inr p \<Rightarrow>
                                    Inr (dump_pickle power_fp
                                           (round_summary cfg emp traditional sample0 p) st2)))))))"

definition parametric_loop ::
  "('v, 'p) scipy_stats \<Rightarrow> ('v, 'c) trad \<Rightarrow> ('v, 'p, 'c, 'w) estimator \<Rightarrow> par_config \<Rightarrow>
   ('v, 'v list list, 'p, 'c, 'w) world \<Rightarrow>
   (error \<times> ('v, 'v list list, 'p, 'c, 'w) world) + ('v, 'v list list, 'p, 'c, 'w) world" where
  "parametric_loop sc tr est cfg st =
     for_each
       (\<lambda>fam st'. for_each (parametric_item sc tr est cfg fam) [0..<par_num_rounds cfg]
                     (ensure_dir (par_power_dir cfg fam) st'))
       parametric_list st"

text \<open>The notebook run from top to bottom: check the simulations directory, loop.\<close>

definition parametric_notebook ::
  "('v, 'p) scipy_stats \<Rightarrow> ('v, 'c) trad \<Rightarrow> ('v, 'p, 'c, 'w) estimator \<Rightarrow> par_config \<Rightarrow>
   ('v, 'v list list, 'p, 'c, 'w) world \<Rightarrow>
   (error \<times> ('v, 'v list list, 'p, 'c, 'w) world) + ('v, 'v list list, 'p, 'c, 'w) world" where
  "parametric_notebook sc tr est cfg st =
     (case check_sim_location (par_sim_location cfg)
             ''The simulation directory does not exist.Go back and simulate some data!'' st of
        Inl failure \<Rightarrow> Inl failure
      | Inr st1 \<Rightarrow> parametric_loop sc tr est cfg st1)"

section \<open>Concrete inputs\<close>

text \<open>
  A grouping series of 32 observations, the even ones labelled 0 and the odd ones 1, and
  one of five observations, two of them labelled 0 and three labelled 1.
\<close>

definition example_groups :: "(nat \<times> int) list" where
  "example_groups = map (\<lambda>k. (k, int (k mod 2))) [0..<32]"

definition small_groups :: "(nat \<times> int) list" where
  "small_groups = [(0, 0), (1, 1), (2, 0), (3, 1), (4, 1)]"


text \<open>
  Stand-ins for the collaborators. A distance matrix is represented by its identifiers;
  filtering keeps the requested identifiers and raises on one the matrix lacks; both
  tests return the smallest p-value the permutations allow and draw once from the
  generator, whose state is a counter. The estimator returns a curve of ones, one row
  per run and one column per count.
\<close>

definition example_skbio :: "(nat list, nat, real, nat) skbio" where
  "example_skbio =
     \<lparr>dm_ids = (\<lambda>dm. dm),
      dm_filter = (\<lambda>dm obs. if set obs \<subseteq> set dm then Inr obs else Inl (Raised ''MissingIDError'')),
      permanova = (\<lambda>dm grouping permutations w. (Inr (1 / real (permutations + 1)), Suc w)),
      mantel = (\<lambda>x y permutations w. (Inr (1 / real (permutations + 1)), Suc w))\<rparr>"

definition example_estimator :: "('a, real, real list list, nat) estimator" where
  "example_estimator test kw w =
     (Inr (replicate (kw_num_runs kw) (map (\<lambda>c. 1) (kw_counts kw))), Suc w)"

text \<open>
  The distance-based notebook on one replicate: a world that holds the simulations
  directory and both inputs, one that lacks the Mantel input, one where the Mantel
  output is there although the input is not, and one that holds both inputs and the
  Mantel output.
\<close>

definition example_config :: dist_config where
  "example_config = dist_settings\<lparr>cfg_num_rounds := 1\<rparr>"

definition example_world ::
  "(nat, (nat list, nat) dist_samples, real, real list list, nat) world" where
  "example_world =
     \<lparr>dirs = {''./simulations/''},
      files =
        [(''./simulations/data/mantel'', 0) \<mapsto>
           SimulationPickle (MatrixPair [0, 1, 2, 3, 4] [0, 1, 2, 3, 4]),
         (''./simulations/data/permanova'', 0) \<mapsto>
           SimulationPickle (GroupedMatrix [0, 1, 2, 3, 4] small_groups)],
      rng = 0,
      trace = []\<rparr>"

definition world_without_mantel ::
  "(nat, (nat list, nat) dist_samples, real, real list list, nat) world" where
  "world_without_mantel =
     \<lparr>dirs = {''./simulations/''},
      files =
        [(''./simulations/data/permanova'', 0) \<mapsto>
           SimulationPickle (GroupedMatrix [0, 1, 2, 3, 4] small_groups)],
      rng = 0,
      trace = []\<rparr>"

definition example_summary :: "(real, real list list) power_summary" where
  "example_summary =
     \<lparr>ps_emperical = [], ps_traditional = None, ps_original_p = 1 / 100, ps_num_obs = 5,
      ps_counts = [], ps_alpha = 5 / 100, ps_depth = Some 99\<rparr>"

definition world_with_output_only ::
  "(nat, (nat list, nat) dist_samples, real, real list list, nat) world" where
  "world_with_output_only =
     \<lparr>dirs = {''./simulations/''},
      files = [(''./simulations/power/mantel/'', 0) \<mapsto> SummaryPickle example_summary],
      rng = 0,
      trace = []\<rparr>"

definition world_with_output ::
  "(nat, (nat list, nat) dist_samples, real, real list list, nat) world" where
  "world_with_output =
     example_world\<lparr>files :=
       (files example_world)((''./simulations/power/mantel/'', 0) \<mapsto> SummaryPickle example_summary)\<rparr>"

definition world_without_directory ::
  "(nat, (nat list, nat) dist_samples, real, real list list, nat) world" where
  "world_without_directory = \<lparr>dirs = {}, files = Map.empty, rng = 0, trace = []\<rparr>"

text \<open>
  The parametric notebook on one replicate, with stand-ins for scipy and for the
  closed-form power: a world with an input for every family, one that lacks the input of
  the one-sample t test, and one that holds that family's output and no input.
\<close>

definition example_scipy :: "(int, real) scipy_stats" where
  "example_scipy =
     \<lparr>ttest_1samp = (\<lambda>sample x0. Inr (3 / 100)),
      ttest_ind = (\<lambda>sample1 sample2. Inr (3 / 100)),
      f_oneway = (\<lambda>samples. Inr (3 / 100)),
      pearsonr = (\<lambda>samples. Inr (3 / 100))\<rparr>"

definition example_trad :: "(int, real list list) trad" where
  "example_trad =
     \<lparr>calc_ttest_1 = (\<lambda>samples x0 counts. Inr [map (\<lambda>c. 1) counts]),
      calc_ttest_ind = (\<lambda>samples counts. Inr [map (\<lambda>c. 1) counts]),
      calc_anova = (\<lambda>samples counts. Inr [map (\<lambda>c. 1) counts]),
      calc_pearson = (\<lambda>samples counts. Inr [map (\<lambda>c. 1) counts])\<rparr>"

definition par_example_config :: par_config where
  "par_example_config = par_settings\<lparr>par_num_rounds := 1, par_counts := [5, 15]\<rparr>"

definition par_example_world :: "(int, int list list, real, real list list, nat) world" where
  "par_example_world =
     \<lparr>dirs = {''./simulations/''},
      files =
        [(''./simulations/data/ttest_1'', 0) \<mapsto> SimulationPickle [[1, 2, 3]],
         (''./simulations/data/ttest_ind'', 0) \<mapsto> SimulationPickle [[1, 2, 3], [4, 5, 6, 7]],
         (''./simulations/data/anova_3'', 0) \<mapsto> SimulationPickle [[1, 2], [3, 4], [5, 6]],
         (''./simulations/data/anova_8'', 0) \<mapsto>
           SimulationPickle [[1, 2], [3, 4], [5, 6], [7, 8], [9, 10], [11, 12], [13, 14], [15, 16]],
         (''./simulations/data/correlation'', 0) \<mapsto> SimulationPickle [[1, 2, 3], [2, 4, 7]]],
      rng = 0,
      trace = []\<rparr>"

definition par_world_without_ttest_1 :: "(int, int list list, real, real list list, nat) world" where
  "par_world_without_ttest_1 =
     \<lparr>dirs = {''./simulations/''},
      files =
        [(''./simulations/data/ttest_ind'', 0) \<mapsto> SimulationPickle [[1, 2, 3], [4, 5, 6, 7]]],
      rng = 0,
      trace = []\<rparr>"

definition par_summary :: "(real, real list list) power_summary" where
  "par_summary =
     \<lparr>ps_emperical = [], ps_traditional = Some [], ps_original_p = 3 / 100, ps_num_obs = 3,
      ps_counts = [5, 15], ps_alpha = 5 / 100, ps_depth = None\<rparr>"

definition par_world_with_output_only :: "(int, int list list, real, real list list, nat) world" where
  "par_world_with_output_only =
     \<lparr>dirs = {''./simulations/''},
      files = [(''./simulations/power/ttest_1'', 0) \<mapsto> SummaryPickle par_summary],
      rng = 0,
      trace = []\<rparr>"

definition par_world_without_directory :: "(int, int list list, real, real list list, nat) world" where
  "par_world_without_directory = \<lparr>dirs = {}, files = Map.empty, rng = 0, trace = []\<rparr>"

section \<open>The counts schedule\<close>

lemma arange_sorted: "0 < step \<Longrightarrow> sorted_wrt (<) (arange start stop step)"
  unfolding arange_def by (simp add: sorted_wrt_map sorted_wrt_iff_nth_less)

lemma arange_bounds:
  assumes "0 < step" and "c \<in> set (arange start stop step)"
  shows "start \<le> c \<and> c < stop"
proof -
  from assms(2) obtain k where k: "k < nat ((stop - start + step - 1) div step)"
    and c: "c = start + int k * step"
    unfolding arange_def by auto
  let ?q = "(stop - start + step - 1) div step"
  from k have "int k + 1 \<le> ?q" by linarith
  then have "(int k + 1) * step \<le> ?q * step"
    using assms(1) by (simp add: mult_right_mono)
  also have "?q * step \<le> stop - start + step - 1"
    using assms(1) by (metis mult.commute pos_mod_sign mult_div_mod_eq add_le_cancel_left add.right_neutral)
  finally have "int k * step + step \<le> stop - start + step - 1"
    by (simp add: algebra_simps)
  moreover have "0 \<le> int k * step" using assms(1) by simp
  ultimately show ?thesis using c by linarith
qed

lemma arange_5_100: "arange 5 100 10 = [5, 15, 25, 35, 45, 55, 65, 75, 85, 95]"
  by code_simp

lemma par_counts_settings: "par_counts par_settings = [5, 15, 25, 35, 45, 55, 65, 75, 85, 95]"
  by (simp add: par_settings_def arange_5_100)

lemma kw_counts_empr_power: "kw_counts (empr_power_kwargs cfg fam samples) = par_counts cfg"
  by (cases fam) simp_all

text \<open>
  Claim C1, as the code has it. The schedule the PERMANOVA wrapper hands to the estimator
  is strictly increasing, and each count is positive and below the size of the smaller
  group minus 10, hence at most that size minus 1; the same holds for the Mantel wrapper
  with the number of identifiers. The parametric notebook hands every family the fixed
  schedule 5, 15, ..., 95, whatever samples it loaded: it is strictly increasing and
  positive, and it is not bounded by the group sizes.
\<close>

theorem C1_counts_schedule:
  "sorted_wrt (<) (kw_counts (permanova_kwargs groups a)) \<and>
   (\<forall>c \<in> set (kw_counts (permanova_kwargs groups a)).
      0 < c \<and> c < int (min_group_size (kw_samples (permanova_kwargs groups a))) - 10 \<and>
      c \<le> int (min_group_size (kw_samples (permanova_kwargs groups a))) - 1) \<and>
   sorted_wrt (<) (kw_counts (mantel_kwargs ids a)) \<and>
   (\<forall>c \<in> set (kw_counts (mantel_kwargs ids a)).
      0 < c \<and> c < int (min_group_size (kw_samples (mantel_kwargs ids a))) - 10 \<and>
      c \<le> int (min_group_size (kw_samples (mantel_kwargs ids a))) - 1) \<and>
   kw_counts (empr_power_kwargs par_settings fam samples) =
     [5, 15, 25, 35, 45, 55, 65, 75, 85, 95]"
proof -
  have perm: "0 < c \<and> c < int (min_group_size (kw_samples (permanova_kwargs groups a))) - 10 \<and>
      c \<le> int (min_group_size (kw_samples (permanova_kwargs groups a))) - 1"
    if "c \<in> set (kw_counts (permanova_kwargs groups a))" for c
  proof -
    from that have "c \<in> set (arange 5 (int (min_group_size (permanova_samples groups)) - 10) 10)"
      by (simp add: permanova_kwargs_def permanova_counts_def)
    then have "5 \<le> c \<and> c < int (min_group_size (permanova_samples groups)) - 10"
      by (intro arange_bounds) simp_all
    then show ?thesis by (simp add: permanova_kwargs_def)
  qed
  have mant: "0 < c \<and> c < int (min_group_size (kw_samples (mantel_kwargs ids a))) - 10 \<and>
      c \<le> int (min_group_size (kw_samples (mantel_kwargs ids a))) - 1"
    if "c \<in> set (kw_counts (mantel_kwargs ids a))" for c
  proof -
    from that have "c \<in> set (arange 5 (int (length ids) - 10) 10)"
      by (simp add: mantel_kwargs_def mantel_counts_def)
    then have "5 \<le> c \<and> c < int (length ids) - 10"
      by (intro arange_bounds) simp_all
    then show ?thesis by (simp add: mantel_kwargs_def min_group_size_def)
  qed
  have "sorted_wrt (<) (kw_counts (permanova_kwargs groups a))"
    by (simp add: permanova_kwargs_def permanova_counts_def arange_sorted)
  moreover have "sorted_wrt (<) (kw_counts (mantel_kwargs ids a))"
    by (simp add: mantel_kwargs_def mantel_counts_def arange_sorted)
  moreover have "kw_counts (empr_power_kwargs par_settings fam samples) =
      [5, 15, 25, 35, 45, 55, 65, 75, 85, 95]"
    by (simp add: kw_counts_empr_power par_counts_settings)
  ultimately show ?thesis using perm mant by blast
qed

text \<open>
  With 16 observations in each group the PERMANOVA schedule is the single count 5; with
  40 identifiers the Mantel schedule reaches 25, below 40 - 10.
\<close>

theorem C1_counts_schedule_witness:
  "(5::int) \<in> set (kw_counts (permanova_kwargs example_groups (5 / 100))) \<and>
   (5::int) < int (min_group_size (kw_samples (permanova_kwargs example_groups (5 / 100)))) - 10 \<and>
   (25::int) \<in> set (kw_counts (mantel_kwargs [0..<(40::nat)] (5 / 100))) \<and>
   (25::int) < int (min_group_size (kw_samples (mantel_kwargs [0..<(40::nat)] (5 / 100)))) - 10"
proof -
  have m1: "(5::int) \<in> set (kw_counts (permanova_kwargs example_groups (5 / 100)))"
    by code_simp
  have m2: "(25::int) \<in> set (kw_counts (mantel_kwargs [0..<(40::nat)] (5 / 100)))"
    by code_simp
  from C1_counts_schedule [of example_groups "5 / 100" "[0..<(40::nat)]"] m1 m2
  show ?thesis by blast
qed

text \<open>
  Claim C1 as stated fails for the parametric families: for two groups of three values the
  independent t test is handed the count 5 (and every count up to 95), which exceeds the
  smaller group's size minus 1.
\<close>

theorem C1_counts_schedule_counterexample:
  "(5::int) \<in> set (kw_counts (empr_power_kwargs par_settings Ttest_ind [[1, 2, 3 :: int], [4, 5, 6]])) \<and>
   \<not> (5::int) \<le> int (min_group_size [[1, 2, 3 :: int], [4, 5, 6]]) - 1"
  by (simp add: kw_counts_empr_power par_counts_settings min_group_size_def)

section \<open>The iteration settings\<close>

text \<open>
  Claim C6 at the notebook's own settings. The settings cell of the parametric notebook
  sets 100 iterations and 5 runs, and its text announces them; the call of the one-sample
  t test (and of the independent t test and both ANOVA families) is bound to 1000
  iterations and 3 runs whatever the settings are, while the correlation family runs 100
  iterations and 5 runs.
\<close>

theorem C6_hard_coded_iterations:
  "par_num_iter par_settings = 100 \<and> par_run_runs par_settings = 5 \<and>
   kw_num_iter (empr_power_kwargs cfg Ttest_1 samples) = 1000 \<and>
   kw_num_runs (empr_power_kwargs cfg Ttest_1 samples) = 3 \<and>
   kw_num_iter (empr_power_kwargs cfg Ttest_ind samples) = 1000 \<and>
   kw_num_runs (empr_power_kwargs cfg Ttest_ind samples) = 3 \<and>
   kw_num_iter (empr_power_kwargs cfg Anova_3 samples) = 1000 \<and>
   kw_num_runs (empr_power_kwargs cfg Anova_3 samples) = 3 \<and>
   kw_num_iter (empr_power_kwargs cfg Anova_8 samples) = 1000 \<and>
   kw_num_runs (empr_power_kwargs cfg Anova_8 samples) = 3 \<and>
   kw_num_iter (empr_power_kwargs cfg Correlation samples) = 100 \<and>
   kw_num_runs (empr_power_kwargs cfg Correlation samples) = 5"
  by (simp add: par_settings_def)

section \<open>The two groups of the PERMANOVA wrapper\<close>






section \<open>What the wrappers and the loops change\<close>

lemma writes_at_refl: "writes_at fp st st"
  by (simp add: writes_at_def)

lemma calculate_permanova_power_writes:
  "writes_at fp st (final_world (calculate_permanova_power sk est simulation a d fp st))"
  unfolding calculate_permanova_power_def
  by (auto simp: writes_at_def final_world_def with_rng_def dump_pickle_def log_event_def Let_def
      split: pickle.splits dist_samples.splits sum.splits prod.splits)

lemma calculate_mantel_power_writes:
  "writes_at fp st (final_world (calculate_mantel_power sk est simulation fp a d st))"
  unfolding calculate_mantel_power_def
  by (auto simp: writes_at_def final_world_def with_rng_def dump_pickle_def log_event_def Let_def
      split: pickle.splits dist_samples.splits sum.splits prod.splits)

lemma calculate_permanova_power_ok:
  "calculate_permanova_power sk est simulation a d fp st = Inr st' \<Longrightarrow> files st' fp \<noteq> None"
  unfolding calculate_permanova_power_def
  by (auto simp: with_rng_def dump_pickle_def log_event_def Let_def
      split: pickle.splits dist_samples.splits sum.splits prod.splits)

lemma calculate_mantel_power_ok:
  "calculate_mantel_power sk est simulation fp a d st = Inr st' \<Longrightarrow> files st' fp \<noteq> None"
  unfolding calculate_mantel_power_def
  by (auto simp: with_rng_def dump_pickle_def log_event_def Let_def
      split: pickle.splits dist_samples.splits sum.splits prod.splits)

lemma sim_func_writes:
  "writes_at fp st (final_world (sim_func t sk est simulation a d fp st))"
  by (cases t) (simp_all add: calculate_permanova_power_writes calculate_mantel_power_writes)

lemma sim_func_ok:
  "sim_func t sk est simulation a d fp st = Inr st' \<Longrightarrow> files st' fp \<noteq> None"
  by (cases t) (auto dest: calculate_permanova_power_ok calculate_mantel_power_ok)


lemma final_world_simps [simp]:
  "final_world (Inl (e, st)) = st" "final_world (Inr st) = st"
  by (simp_all add: final_world_def)

lemma writes_at_log: "writes_at fp (log_event e st) st' \<Longrightarrow> writes_at fp st st'"
  by (auto simp: writes_at_def log_event_def)

lemma writes_at_keeps:
  "writes_at fp st st' \<Longrightarrow> q \<noteq> fp \<Longrightarrow> files st' q = files st q"
  by (auto simp: writes_at_def)

lemma writes_at_mono:
  "writes_at fp st st' \<Longrightarrow> files st q \<noteq> None \<Longrightarrow> files st' q \<noteq> None"
  by (auto simp: writes_at_def)

lemma distance_item_writes:
  "writes_at (power_dir cfg t, i) st (final_world (distance_item sk est cfg i t st))"
proof (cases "files st (sim_dir cfg t, i)")
  case None
  then show ?thesis by (simp add: distance_item_def load_pickle_def writes_at_refl)
next
  case (Some simulation)
  show ?thesis
  proof (cases "cfg_overwrite cfg \<or> \<not> file_exists (power_dir cfg t, i) (log_event (Loaded (sim_dir cfg t) i) st)")
    case True
    then show ?thesis
      using Some sim_func_writes [of "(power_dir cfg t, i)"
          "log_event (Printed (family_name t @ '' sim is a go!'')) (log_event (Loaded (sim_dir cfg t) i) st)"
          t sk est simulation "cfg_alpha cfg" "cfg_depth cfg"]
      by (auto simp: distance_item_def load_pickle_def Let_def dest!: writes_at_log)
  next
    case False
    then show ?thesis
      using Some by (auto simp: distance_item_def load_pickle_def Let_def intro: writes_at_log writes_at_refl)
  qed
qed

lemma distance_item_skip:
  assumes "\<not> cfg_overwrite cfg" and "files st (sim_dir cfg t, i) = Some simulation"
    and "files st (power_dir cfg t, i) \<noteq> None"
  shows "distance_item sk est cfg i t st = Inr (log_event (Loaded (sim_dir cfg t) i) st)"
  using assms by (auto simp: distance_item_def load_pickle_def file_exists_def log_event_def Let_def)

lemma distance_item_missing_input:
  assumes "files st (sim_dir cfg t, i) = None"
  shows "distance_item sk est cfg i t st = Inl (FileNotFoundError (sim_dir cfg t) i, st)"
  using assms by (simp add: distance_item_def load_pickle_def)

lemma distance_item_keeps:
  assumes "\<not> cfg_overwrite cfg" and "files st q = Some b"
  shows "files (final_world (distance_item sk est cfg i t st)) q = Some b"
proof (cases "q = (power_dir cfg t, i)")
  case False
  then show ?thesis
    using writes_at_keeps [OF distance_item_writes] assms(2) by metis
next
  case True
  show ?thesis
  proof (cases "files st (sim_dir cfg t, i)")
    case None
    then show ?thesis using assms(2) by (simp add: distance_item_missing_input)
  next
    case (Some simulation)
    then show ?thesis
      using assms True by (simp add: distance_item_skip log_event_def)
  qed
qed

lemma distance_item_ok:
  assumes "distance_item sk est cfg i t st = Inr st'"
  shows "files st (sim_dir cfg t, i) \<noteq> None \<and> files st' (power_dir cfg t, i) \<noteq> None"
proof (cases "files st (sim_dir cfg t, i)")
  case None
  then show ?thesis using assms by (simp add: distance_item_missing_input)
next
  case (Some simulation)
  then show ?thesis
    using assms
    by (auto simp: distance_item_def load_pickle_def Let_def file_exists_def log_event_def
        split: if_splits dest: sim_func_ok)
qed


subsection \<open>Loops that may raise\<close>

lemma for_each_invariant:
  assumes "P st" and "\<And>x s. x \<in> set xs \<Longrightarrow> P s \<Longrightarrow> P (final_world (body x s))"
  shows "P (final_world (for_each body xs st))"
  using assms
proof (induction xs arbitrary: st)
  case Nil
  then show ?case by simp
next
  case (Cons x xs)
  have here: "P (final_world (body x st))"
    using Cons.prems by simp
  show ?case
  proof (cases "body x st")
    case (Inl failure)
    then show ?thesis using here by simp
  next
    case (Inr st')
    then have "P st'" using here by simp
    then have "P (final_world (for_each body xs st'))"
      using Cons.prems(2) by (intro Cons.IH) simp_all
    then show ?thesis using Inr by simp
  qed
qed

lemma for_each_preserves:
  assumes "for_each body ys s = Inr s'" and "Q s"
    and "\<And>y s s'. y \<in> set ys \<Longrightarrow> Q s \<Longrightarrow> body y s = Inr s' \<Longrightarrow> Q s'"
  shows "Q s'"
  using assms
proof (induction ys arbitrary: s)
  case Nil
  then show ?case by simp
next
  case (Cons y ys)
  from Cons.prems(1) obtain s2 where s2: "body y s = Inr s2" and more: "for_each body ys s2 = Inr s'"
    by (auto split: sum.splits)
  have "Q s2" using Cons.prems(2) s2 Cons.prems(3) [of y s s2] by simp
  show ?case
  proof (rule Cons.IH [OF more \<open>Q s2\<close>])
    show "Q t'" if "z \<in> set ys" "Q t" "body z t = Inr t'" for z t t'
      using that Cons.prems(3) [of z t t'] by simp
  qed
qed

lemma for_each_ok_all:
  assumes "for_each body xs st = Inr st'"
    and "\<And>x s s'. x \<in> set xs \<Longrightarrow> body x s = Inr s' \<Longrightarrow> A x s'"
    and "\<And>x y s s'. y \<in> set xs \<Longrightarrow> A x s \<Longrightarrow> body y s = Inr s' \<Longrightarrow> A x s'"
  shows "\<forall>x \<in> set xs. A x st'"
  using assms
proof (induction xs arbitrary: st)
  case Nil
  then show ?case by simp
next
  case (Cons x xs)
  from Cons.prems(1) obtain s1 where s1: "body x st = Inr s1" and rest: "for_each body xs s1 = Inr st'"
    by (auto split: sum.splits)
  have tail: "\<forall>y \<in> set xs. A y st'"
  proof (rule Cons.IH [OF rest])
    show "A y s'" if "y \<in> set xs" "body y s = Inr s'" for y s s'
      using that Cons.prems(2) [of y s s'] by simp
    show "A z s'" if "y \<in> set xs" "A z s" "body y s = Inr s'" for z y s s'
      using that Cons.prems(3) [of y z s s'] by simp
  qed
  have "A x s1" using s1 Cons.prems(2) [of x st s1] by simp
  have "A x st'"
  proof (rule for_each_preserves [where Q = "A x", OF rest \<open>A x s1\<close>])
    show "A x t'" if "y \<in> set xs" "A x t" "body y t = Inr t'" for y t t'
      using that Cons.prems(3) [of y x t t'] by simp
  qed
  then show ?case using tail by simp
qed

lemma for_each_append:
  "for_each body (xs @ ys) st =
     (case for_each body xs st of Inl failure \<Rightarrow> Inl failure | Inr st' \<Rightarrow> for_each body ys st')"
  by (induction xs arbitrary: st) (auto split: sum.splits)

lemma for_each_abort:
  assumes "for_each body xs st = Inr st1" and "body x st1 = Inl failure"
  shows "for_each body (xs @ x # ys) st = Inl failure"
  using assms by (simp add: for_each_append)

subsection \<open>The distance-based loop\<close>

lemma sim_dir_not_power_dir: "sim_dir cfg t \<noteq> power_dir cfg t'"
  by (cases t; cases t') (auto simp: os_path_join_def)

lemma distance_item_mono:
  "files st q \<noteq> None \<Longrightarrow> files (final_world (distance_item sk est cfg i t st)) q \<noteq> None"
  using writes_at_mono [OF distance_item_writes] .

lemma distance_item_dirs:
  "dirs (final_world (distance_item sk est cfg i t st)) = dirs st"
  using distance_item_writes [where cfg = cfg and t = t and i = i and st = st and sk = sk and est = est]
  by (simp add: writes_at_def)

lemma distance_item_inputs:
  "files (final_world (distance_item sk est cfg i t st)) (sim_dir cfg t', j) = files st (sim_dir cfg t', j)"
  using writes_at_keeps [OF distance_item_writes, where q = "(sim_dir cfg t', j)" and cfg1 = cfg and t1 = t]
  by (simp add: sim_dir_not_power_dir)

lemma distance_loop_keeps:
  assumes "\<not> cfg_overwrite cfg" and "files st q = Some b"
  shows "files (final_world (distance_loop sk est cfg order st)) q = Some b"
  unfolding distance_loop_def
  by (rule for_each_invariant [where P = "\<lambda>s. files s q = Some b"], fact assms(2),
      rule for_each_invariant [where P = "\<lambda>s. files s q = Some b"], assumption,
      rule distance_item_keeps [OF assms(1)])

lemma distance_loop_dirs:
  "dirs (final_world (distance_loop sk est cfg order st)) = dirs st"
  unfolding distance_loop_def
  by (rule for_each_invariant [where P = "\<lambda>s. dirs s = dirs st"], simp,
      rule for_each_invariant [where P = "\<lambda>s. dirs s = dirs st"], assumption,
      simp add: distance_item_dirs)

lemma distance_loop_inputs:
  "files (final_world (distance_loop sk est cfg order st)) (sim_dir cfg t, j) = files st (sim_dir cfg t, j)"
  unfolding distance_loop_def
  by (rule for_each_invariant [where P = "\<lambda>s. files s (sim_dir cfg t, j) = files st (sim_dir cfg t, j)"], simp,
      rule for_each_invariant [where P = "\<lambda>s. files s (sim_dir cfg t, j) = files st (sim_dir cfg t, j)"], assumption,
      simp add: distance_item_inputs)

lemma distance_round_mono:
  assumes "for_each (distance_item sk est cfg i) order s = Inr s'" and "files s q \<noteq> None"
  shows "files s' q \<noteq> None"
proof -
  have "files (final_world (for_each (distance_item sk est cfg i) order s)) q \<noteq> None"
    by (rule for_each_invariant [where P = "\<lambda>s. files s q \<noteq> None"], fact assms(2),
        rule distance_item_mono)
  then show ?thesis using assms(1) by simp
qed

lemma distance_round_ok:
  assumes "for_each (distance_item sk est cfg i) order s = Inr s'" and "t \<in> set order"
  shows "files s' (sim_dir cfg t, i) \<noteq> None \<and> files s' (power_dir cfg t, i) \<noteq> None"
proof -
  have "\<forall>t \<in> set order. files s' (sim_dir cfg t, i) \<noteq> None \<and> files s' (power_dir cfg t, i) \<noteq> None"
  proof (rule for_each_ok_all [OF assms(1)])
    show "files u' (sim_dir cfg x, i) \<noteq> None \<and> files u' (power_dir cfg x, i) \<noteq> None"
      if "distance_item sk est cfg i x u = Inr u'" for x u u'
      using distance_item_ok [OF that]
        distance_item_mono [where st = u and q = "(sim_dir cfg x, i)" and sk = sk and est = est and cfg = cfg and i = i and t = x] that
      by simp
    show "files u' (sim_dir cfg x, i) \<noteq> None \<and> files u' (power_dir cfg x, i) \<noteq> None"
      if "files u (sim_dir cfg x, i) \<noteq> None \<and> files u (power_dir cfg x, i) \<noteq> None"
        and "distance_item sk est cfg i y u = Inr u'" for x y u u'
      using that
        distance_item_mono [where st = u and q = "(sim_dir cfg x, i)" and sk = sk and est = est and cfg = cfg and i = i and t = y]
        distance_item_mono [where st = u and q = "(power_dir cfg x, i)" and sk = sk and est = est and cfg = cfg and i = i and t = y]
      by simp
  qed
  then show ?thesis using assms(2) by simp
qed

lemma distance_loop_ok:
  assumes "distance_loop sk est cfg order st = Inr st'" and "i < cfg_num_rounds cfg" and "t \<in> set order"
  shows "files st' (sim_dir cfg t, i) \<noteq> None \<and> files st' (power_dir cfg t, i) \<noteq> None"
proof -
  let ?A = "\<lambda>i s. \<forall>t \<in> set order. files s (sim_dir cfg t, i) \<noteq> None \<and> files s (power_dir cfg t, i) \<noteq> None"
  have "\<forall>i \<in> set [0..<cfg_num_rounds cfg]. ?A i st'"
  proof (rule for_each_ok_all [OF assms(1) [unfolded distance_loop_def]])
    show "?A x u'" if "for_each (distance_item sk est cfg x) order u = Inr u'" for x u u'
      using distance_round_ok [OF that] by blast
    show "?A x u'" if "?A x u" and "for_each (distance_item sk est cfg y) order u = Inr u'" for x y u u'
      using that distance_round_mono [OF that(2)] by blast
  qed
  then show ?thesis using assms(2,3) by simp
qed

lemma distance_loop_needs_inputs:
  assumes "distance_loop sk est cfg order st = Inr st'" and "i < cfg_num_rounds cfg" and "t \<in> set order"
  shows "files st (sim_dir cfg t, i) \<noteq> None"
  using distance_loop_ok [OF assms]
    distance_loop_inputs [where sk = sk and est = est and cfg = cfg and order = order and st = st and t = t and j = i]
    assms(1)
  by simp


lemma distance_round_skips:
  assumes "\<not> cfg_overwrite cfg"
    and "\<forall>t \<in> set order. files s (sim_dir cfg t, i) \<noteq> None \<and> files s (power_dir cfg t, i) \<noteq> None"
  shows "for_each (distance_item sk est cfg i) order s =
           Inr (s\<lparr>trace := trace s @ map (\<lambda>t. Loaded (sim_dir cfg t) i) order\<rparr>)"
  using assms(2)
proof (induction order arbitrary: s)
  case Nil
  then show ?case by simp
next
  case (Cons t ts)
  from Cons.prems obtain simulation where sim: "files s (sim_dir cfg t, i) = Some simulation"
    and out: "files s (power_dir cfg t, i) \<noteq> None"
    by auto
  have step: "distance_item sk est cfg i t s = Inr (log_event (Loaded (sim_dir cfg t) i) s)"
    by (rule distance_item_skip [OF assms(1) sim out])
  have "for_each (distance_item sk est cfg i) ts (log_event (Loaded (sim_dir cfg t) i) s) =
      Inr ((log_event (Loaded (sim_dir cfg t) i) s)
            \<lparr>trace := trace (log_event (Loaded (sim_dir cfg t) i) s) @ map (\<lambda>t. Loaded (sim_dir cfg t) i) ts\<rparr>)"
    using Cons.prems by (intro Cons.IH) (simp add: log_event_def)
  then show ?case using step by (simp add: log_event_def)
qed

lemma distance_rounds_skip:
  assumes "\<not> cfg_overwrite cfg"
    and "\<forall>i \<in> set rounds. \<forall>t \<in> set order.
           files st (sim_dir cfg t, i) \<noteq> None \<and> files st (power_dir cfg t, i) \<noteq> None"
  shows "for_each (\<lambda>i. for_each (distance_item sk est cfg i) order) rounds st =
           Inr (st\<lparr>trace := trace st @ concat (map (\<lambda>i. map (\<lambda>t. Loaded (sim_dir cfg t) i) order) rounds)\<rparr>)"
  using assms(2)
proof (induction rounds arbitrary: st)
  case Nil
  then show ?case by simp
next
  case (Cons i rounds)
  let ?s1 = "st\<lparr>trace := trace st @ map (\<lambda>t. Loaded (sim_dir cfg t) i) order\<rparr>"
  have step: "for_each (distance_item sk est cfg i) order st = Inr ?s1"
    using Cons.prems by (intro distance_round_skips [OF assms(1)]) simp
  have "for_each (\<lambda>i. for_each (distance_item sk est cfg i) order) rounds ?s1 =
      Inr (?s1\<lparr>trace := trace ?s1 @ concat (map (\<lambda>i. map (\<lambda>t. Loaded (sim_dir cfg t) i) order) rounds)\<rparr>)"
    using Cons.prems by (intro Cons.IH) simp
  then show ?case using step by simp
qed

lemma dirs_ensure_dir: "dirs (ensure_dir d st) = insert d (dirs st)"
  by (auto simp: ensure_dir_def dir_exists_def)

lemma ensure_dir_present: "d \<in> dirs st \<Longrightarrow> ensure_dir d st = st"
  by (simp add: ensure_dir_def dir_exists_def)

lemma ensure_dir_same [simp]:
  "files (ensure_dir d st) = files st" "trace (ensure_dir d st) = trace st"
  "rng (ensure_dir d st) = rng st"
  by (simp_all add: ensure_dir_def)

lemma make_dist_dirs_same [simp]:
  "files (make_dist_dirs cfg order st) = files st"
  "trace (make_dist_dirs cfg order st) = trace st"
  "rng (make_dist_dirs cfg order st) = rng st"
  unfolding make_dist_dirs_def by (induction order arbitrary: st) simp_all

lemma dirs_make_dist_dirs:
  "dirs (make_dist_dirs cfg order st) =
     dirs st \<union> sim_dir cfg ` set order \<union> power_dir cfg ` set order"
  unfolding make_dist_dirs_def by (induction order arbitrary: st) (auto simp: dirs_ensure_dir)

lemma make_dist_dirs_present:
  assumes "sim_dir cfg ` set order \<union> power_dir cfg ` set order \<subseteq> dirs st"
  shows "make_dist_dirs cfg order st = st"
  using assms unfolding make_dist_dirs_def
  by (induction order arbitrary: st) (simp_all add: ensure_dir_present)

lemma distance_notebook_ok:
  assumes "distance_notebook seed sk est cfg order st = Inr st1"
  shows "cfg_sim_location cfg \<in> dirs st"
    and "distance_loop sk est cfg order (make_dist_dirs cfg order (st\<lparr>rng := seed 25\<rparr>)) = Inr st1"
  using assms
  by (auto simp: distance_notebook_def check_sim_location_def dir_exists_def split: if_splits)

lemma distance_notebook_keeps:
  assumes "\<not> cfg_overwrite cfg" and "files st q = Some b"
  shows "files (final_world (distance_notebook seed sk est cfg order st)) q = Some b"
proof (cases "cfg_sim_location cfg \<in> dirs st")
  case False
  then show ?thesis
    using assms(2) by (simp add: distance_notebook_def check_sim_location_def dir_exists_def)
next
  case True
  then have "distance_notebook seed sk est cfg order st =
      distance_loop sk est cfg order (make_dist_dirs cfg order (st\<lparr>rng := seed 25\<rparr>))"
    by (simp add: distance_notebook_def check_sim_location_def dir_exists_def)
  then show ?thesis
    using distance_loop_keeps [OF assms(1), where st = "make_dist_dirs cfg order (st\<lparr>rng := seed 25\<rparr>)" and q = q and b = b]
      assms(2)
    by simp
qed

lemma distance_notebook_second_run:
  assumes "\<not> cfg_overwrite cfg" and "distance_notebook seed sk est cfg order st = Inr st1"
  shows "distance_notebook seed sk est cfg order st1 =
           Inr (st1\<lparr>rng := seed 25,
                    trace := trace st1 @
                      concat (map (\<lambda>i. map (\<lambda>t. Loaded (sim_dir cfg t) i) order)
                                [0..<cfg_num_rounds cfg])\<rparr>)"
proof -
  let ?st0 = "make_dist_dirs cfg order (st\<lparr>rng := seed 25\<rparr>)"
  note first = distance_notebook_ok [OF assms(2)]
  have "dirs st1 = dirs ?st0"
    using distance_loop_dirs [where sk = sk and est = est and cfg = cfg and order = order and st = ?st0]
      first(2) by simp
  then have d1: "dirs st1 = dirs st \<union> sim_dir cfg ` set order \<union> power_dir cfg ` set order"
    by (simp add: dirs_make_dist_dirs)
  have complete: "\<forall>i \<in> set [0..<cfg_num_rounds cfg]. \<forall>t \<in> set order.
      files (st1\<lparr>rng := seed 25\<rparr>) (sim_dir cfg t, i) \<noteq> None \<and>
      files (st1\<lparr>rng := seed 25\<rparr>) (power_dir cfg t, i) \<noteq> None"
    using distance_loop_ok [OF first(2)] by simp
  have "check_sim_location (cfg_sim_location cfg)
          ''The simulations do not exist. Go back and simulate some data!'' (st1\<lparr>rng := seed 25\<rparr>) =
        Inr (st1\<lparr>rng := seed 25\<rparr>)"
    using first(1) d1 by (simp add: check_sim_location_def dir_exists_def)
  moreover have "make_dist_dirs cfg order (st1\<lparr>rng := seed 25\<rparr>) = st1\<lparr>rng := seed 25\<rparr>"
    using d1 by (intro make_dist_dirs_present) auto
  ultimately have "distance_notebook seed sk est cfg order st1 =
      distance_loop sk est cfg order (st1\<lparr>rng := seed 25\<rparr>)"
    by (simp add: distance_notebook_def)
  also have "\<dots> = Inr ((st1\<lparr>rng := seed 25\<rparr>)\<lparr>trace := trace (st1\<lparr>rng := seed 25\<rparr>) @
      concat (map (\<lambda>i. map (\<lambda>t. Loaded (sim_dir cfg t) i) order) [0..<cfg_num_rounds cfg])\<rparr>)"
    unfolding distance_loop_def by (rule distance_rounds_skip [OF assms(1) complete])
  finally show ?thesis by simp
qed

subsection \<open>The parametric loop\<close>

lemma parametric_item_skip:
  assumes "\<not> par_overwrite cfg" and "files st (par_power_dir cfg fam, i) \<noteq> None"
  shows "parametric_item sc tr est cfg fam i st = Inr st"
  using assms by (simp add: parametric_item_def file_exists_def Let_def del: par_power_dir.simps par_sim_dir.simps)

lemma parametric_item_missing_input:
  assumes "par_overwrite cfg \<or> files st (par_power_dir cfg fam, i) = None"
    and "files st (par_sim_dir cfg fam, i) = None"
  shows "parametric_item sc tr est cfg fam i st = Inl (FileNotFoundError (par_sim_dir cfg fam) i, st)"
  using assms
  by (auto simp: parametric_item_def file_exists_def load_pickle_def Let_def
      simp del: par_power_dir.simps par_sim_dir.simps)

lemma parametric_item_writes:
  "writes_at (par_power_dir cfg fam, i) st (final_world (parametric_item sc tr est cfg fam i st))"
  unfolding parametric_item_def
  by (auto simp: writes_at_def with_rng_def dump_pickle_def log_event_def load_pickle_def Let_def
      simp del: par_power_dir.simps par_sim_dir.simps
      split: pickle.splits sum.splits prod.splits list.splits option.splits)

lemma parametric_item_ok:
  "parametric_item sc tr est cfg fam i st = Inr st' \<Longrightarrow> files st' (par_power_dir cfg fam, i) \<noteq> None"
  unfolding parametric_item_def
  by (auto simp: with_rng_def dump_pickle_def log_event_def load_pickle_def Let_def file_exists_def
      simp del: par_power_dir.simps par_sim_dir.simps
      split: pickle.splits sum.splits prod.splits list.splits option.splits if_splits)

lemma parametric_item_keeps:
  assumes "\<not> par_overwrite cfg" and "files st q = Some b"
  shows "files (final_world (parametric_item sc tr est cfg fam i st)) q = Some b"
proof (cases "q = (par_power_dir cfg fam, i)")
  case False
  then show ?thesis
    using writes_at_keeps [OF parametric_item_writes] assms(2) by metis
next
  case True
  then show ?thesis
    using assms parametric_item_skip [OF assms(1), where st = st and fam = fam and i = i] by simp
qed

lemma parametric_item_mono:
  "files st q \<noteq> None \<Longrightarrow> files (final_world (parametric_item sc tr est cfg fam i st)) q \<noteq> None"
  using writes_at_mono [OF parametric_item_writes] .

lemma parametric_item_dirs:
  "dirs (final_world (parametric_item sc tr est cfg fam i st)) = dirs st"
  using parametric_item_writes [where cfg = cfg and fam = fam and i = i and st = st and sc = sc and tr = tr and est = est]
  by (simp add: writes_at_def)


lemma parametric_loop_keeps:
  assumes "\<not> par_overwrite cfg" and "files st q = Some b"
  shows "files (final_world (parametric_loop sc tr est cfg st)) q = Some b"
  unfolding parametric_loop_def
proof (rule for_each_invariant [where P = "\<lambda>s. files s q = Some b"])
  show "files st q = Some b" by fact
  show "files (final_world (for_each (parametric_item sc tr est cfg fam) [0..<par_num_rounds cfg]
          (ensure_dir (par_power_dir cfg fam) s))) q = Some b"
    if "files s q = Some b" for fam s
    by (rule for_each_invariant [where P = "\<lambda>s. files s q = Some b"])
       (use that in simp, rule parametric_item_keeps [OF assms(1)])
qed

lemma parametric_loop_dirs:
  assumes "d \<in> dirs st"
  shows "d \<in> dirs (final_world (parametric_loop sc tr est cfg st))"
  unfolding parametric_loop_def
proof (rule for_each_invariant [where P = "\<lambda>s. d \<in> dirs s"])
  show "d \<in> dirs st" by fact
  show "d \<in> dirs (final_world (for_each (parametric_item sc tr est cfg fam) [0..<par_num_rounds cfg]
          (ensure_dir (par_power_dir cfg fam) s)))"
    if "d \<in> dirs s" for fam s
    by (rule for_each_invariant [where P = "\<lambda>s. d \<in> dirs s"])
       (use that in \<open>simp add: dirs_ensure_dir\<close>, simp add: parametric_item_dirs)
qed

lemma parametric_family_ok:
  assumes "for_each (parametric_item sc tr est cfg fam) [0..<n] (ensure_dir (par_power_dir cfg fam) s) = Inr s'"
  shows "par_power_dir cfg fam \<in> dirs s'"
    and "\<forall>i < n. files s' (par_power_dir cfg fam, i) \<noteq> None"
proof -
  have "par_power_dir cfg fam \<in> dirs (final_world
      (for_each (parametric_item sc tr est cfg fam) [0..<n] (ensure_dir (par_power_dir cfg fam) s)))"
    by (rule for_each_invariant [where P = "\<lambda>s. par_power_dir cfg fam \<in> dirs s"])
       (simp add: dirs_ensure_dir, simp add: parametric_item_dirs)
  then show "par_power_dir cfg fam \<in> dirs s'" using assms by simp
  have "\<forall>i \<in> set [0..<n]. files s' (par_power_dir cfg fam, i) \<noteq> None"
  proof (rule for_each_ok_all [OF assms])
    show "files u' (par_power_dir cfg fam, x) \<noteq> None"
      if "parametric_item sc tr est cfg fam x u = Inr u'" for x u u'
      using that by (rule parametric_item_ok)
    show "files u' (par_power_dir cfg fam, x) \<noteq> None"
      if "files u (par_power_dir cfg fam, x) \<noteq> None" and "parametric_item sc tr est cfg fam y u = Inr u'"
      for x y u u'
      using parametric_item_mono [where st = u and q = "(par_power_dir cfg fam, x)" and sc = sc
          and tr = tr and est = est and cfg = cfg and fam = fam and i = y] that
      by simp
  qed
  then show "\<forall>i < n. files s' (par_power_dir cfg fam, i) \<noteq> None" by simp
qed

lemma parametric_family_mono:
  assumes "for_each (parametric_item sc tr est cfg fam) [0..<n] (ensure_dir (par_power_dir cfg fam) s) = Inr s'"
  shows "files s q \<noteq> None \<Longrightarrow> files s' q \<noteq> None" and "d \<in> dirs s \<Longrightarrow> d \<in> dirs s'"
proof -
  assume "files s q \<noteq> None"
  have "files (final_world (for_each (parametric_item sc tr est cfg fam) [0..<n]
      (ensure_dir (par_power_dir cfg fam) s))) q \<noteq> None"
    by (rule for_each_invariant [where P = "\<lambda>s. files s q \<noteq> None"])
       (use \<open>files s q \<noteq> None\<close> in simp, rule parametric_item_mono)
  then show "files s' q \<noteq> None" using assms by simp
next
  assume "d \<in> dirs s"
  have "d \<in> dirs (final_world (for_each (parametric_item sc tr est cfg fam) [0..<n]
      (ensure_dir (par_power_dir cfg fam) s)))"
    by (rule for_each_invariant [where P = "\<lambda>s. d \<in> dirs s"])
       (use \<open>d \<in> dirs s\<close> in \<open>simp add: dirs_ensure_dir\<close>, simp add: parametric_item_dirs)
  then show "d \<in> dirs s'" using assms by simp
qed

lemma parametric_loop_ok:
  assumes "parametric_loop sc tr est cfg st = Inr st'"
  shows "par_power_dir cfg fam \<in> dirs st' \<and>
         (\<forall>i < par_num_rounds cfg. files st' (par_power_dir cfg fam, i) \<noteq> None)"
proof -
  let ?A = "\<lambda>fam s. par_power_dir cfg fam \<in> dirs s \<and>
      (\<forall>i < par_num_rounds cfg. files s (par_power_dir cfg fam, i) \<noteq> None)"
  have "\<forall>fam \<in> set parametric_list. ?A fam st'"
  proof (rule for_each_ok_all [OF assms [unfolded parametric_loop_def]])
    show "?A x u'"
      if "for_each (parametric_item sc tr est cfg x) [0..<par_num_rounds cfg]
            (ensure_dir (par_power_dir cfg x) u) = Inr u'" for x u u'
      using parametric_family_ok [OF that] by simp
    show "?A x u'"
      if "?A x u" and "for_each (parametric_item sc tr est cfg y) [0..<par_num_rounds cfg]
            (ensure_dir (par_power_dir cfg y) u) = Inr u'" for x y u u'
      using that(1) parametric_family_mono [OF that(2)] by blast
  qed
  moreover have "fam \<in> set parametric_list"
    by (cases fam) (simp_all add: parametric_list_def)
  ultimately show ?thesis by blast
qed

lemma parametric_family_skips:
  assumes "\<not> par_overwrite cfg" and "\<forall>i \<in> set rounds. files s (par_power_dir cfg fam, i) \<noteq> None"
  shows "for_each (parametric_item sc tr est cfg fam) rounds s = Inr s"
  using assms(2)
  by (induction rounds) (simp_all add: parametric_item_skip [OF assms(1)] del: par_power_dir.simps)

lemma parametric_families_skip:
  assumes "\<not> par_overwrite cfg"
    and "\<forall>fam \<in> set fams. par_power_dir cfg fam \<in> dirs s \<and>
           (\<forall>i < n. files s (par_power_dir cfg fam, i) \<noteq> None)"
  shows "for_each (\<lambda>fam st'. for_each (parametric_item sc tr est cfg fam) [0..<n]
                     (ensure_dir (par_power_dir cfg fam) st')) fams s = Inr s"
  using assms(2)
proof (induction fams)
  case Nil
  then show ?case by simp
next
  case (Cons fam fams)
  have "ensure_dir (par_power_dir cfg fam) s = s"
    using Cons.prems by (intro ensure_dir_present) simp
  moreover have "for_each (parametric_item sc tr est cfg fam) [0..<n] s = Inr s"
    using Cons.prems by (intro parametric_family_skips [OF assms(1)]) simp
  ultimately show ?case using Cons by simp
qed

lemma parametric_notebook_ok:
  assumes "parametric_notebook sc tr est cfg st = Inr st1"
  shows "par_sim_location cfg \<in> dirs st" and "parametric_loop sc tr est cfg st = Inr st1"
  using assms
  by (auto simp: parametric_notebook_def check_sim_location_def dir_exists_def split: if_splits)

lemma parametric_notebook_keeps:
  assumes "\<not> par_overwrite cfg" and "files st q = Some b"
  shows "files (final_world (parametric_notebook sc tr est cfg st)) q = Some b"
proof (cases "par_sim_location cfg \<in> dirs st")
  case False
  then show ?thesis
    using assms(2) by (simp add: parametric_notebook_def check_sim_location_def dir_exists_def)
next
  case True
  then have "parametric_notebook sc tr est cfg st = parametric_loop sc tr est cfg st"
    by (simp add: parametric_notebook_def check_sim_location_def dir_exists_def)
  then show ?thesis
    using parametric_loop_keeps [OF assms] by simp
qed

lemma parametric_notebook_second_run:
  assumes "\<not> par_overwrite cfg" and "parametric_notebook sc tr est cfg st = Inr st1"
  shows "parametric_notebook sc tr est cfg st1 = Inr st1"
proof -
  note first = parametric_notebook_ok [OF assms(2)]
  have "par_sim_location cfg \<in> dirs st1"
    using parametric_loop_dirs [OF first(1), where sc = sc and tr = tr and est = est and cfg = cfg]
      first(2) by simp
  then have "parametric_notebook sc tr est cfg st1 = parametric_loop sc tr est cfg st1"
    by (simp add: parametric_notebook_def check_sim_location_def dir_exists_def)
  also have "\<dots> = Inr st1"
    unfolding parametric_loop_def
    using parametric_loop_ok [OF first(2)]
    by (intro parametric_families_skip [OF assms(1)]) blast
  finally show ?thesis .
qed

section \<open>The start-up check, and the order of loading and skipping\<close>

lemma returned_final_world: "\<not> isl r \<Longrightarrow> r = Inr (final_world r)"
  by (cases r) simp_all

lemma example_dirs:
  "sim_dir example_config Mantel = ''./simulations/data/mantel''"
  "sim_dir example_config Permanova = ''./simulations/data/permanova''"
  "power_dir example_config Mantel = ''./simulations/power/mantel/''"
  "power_dir example_config Permanova = ''./simulations/power/permanova/''"
  by (simp_all add: example_config_def dist_settings_def os_path_join_def)

lemma par_example_dirs:
  "par_sim_dir par_example_config Ttest_1 = ''./simulations/data/ttest_1''"
  "par_power_dir par_example_config Ttest_1 = ''./simulations/power/ttest_1''"
  "par_sim_dir par_example_config Ttest_ind = ''./simulations/data/ttest_ind''"
  "par_power_dir par_example_config Ttest_ind = ''./simulations/power/ttest_ind''"
  by (simp_all add: par_example_config_def par_settings_def os_path_join_def)

text \<open>
  Claim C8. When the simulations directory does not exist, either notebook raises the
  \<^verbatim>\<open>ValueError\<close> of its start-up check. The world it leaves is the one it started in
  (the distance-based notebook has seeded the random generator by then): no file was
  loaded, no estimate computed, nothing written.
\<close>

theorem C8_missing_directory:
  "(cfg_sim_location cfg \<notin> dirs st \<longrightarrow>
      distance_notebook seed sk est cfg order st =
        Inl (ValueError ''The simulations do not exist. Go back and simulate some data!'',
             st\<lparr>rng := seed 25\<rparr>)) \<and>
   (par_sim_location pcfg \<notin> dirs pst \<longrightarrow>
      parametric_notebook sc tr pest pcfg pst =
        Inl (ValueError ''The simulation directory does not exist.Go back and simulate some data!'',
             pst))"
  by (simp add: distance_notebook_def parametric_notebook_def check_sim_location_def dir_exists_def)

theorem C8_missing_directory_witness:
  "distance_notebook (\<lambda>n. n) example_skbio example_estimator example_config [Mantel, Permanova]
       world_without_directory =
     Inl (ValueError ''The simulations do not exist. Go back and simulate some data!'',
          world_without_directory\<lparr>rng := 25\<rparr>) \<and>
   parametric_notebook example_scipy example_trad example_estimator par_example_config
       par_world_without_directory =
     Inl (ValueError ''The simulation directory does not exist.Go back and simulate some data!'',
          par_world_without_directory)"
proof -
  have h1: "cfg_sim_location example_config \<notin> dirs world_without_directory"
    by (simp add: world_without_directory_def)
  have h2: "par_sim_location par_example_config \<notin> dirs par_world_without_directory"
    by (simp add: par_world_without_directory_def)
  from C8_missing_directory
         [where cfg = example_config and st = world_without_directory and seed = "\<lambda>n. n"
            and sk = example_skbio and est = example_estimator and order = "[Mantel, Permanova]"
            and pcfg = par_example_config and pst = par_world_without_directory
            and sc = example_scipy and tr = example_trad and pest = example_estimator]
       h1 h2
  show ?thesis by simp
qed

text \<open>
  Claim C10. In the distance-based loop a work item opens its simulation before it looks
  for its output: with the input missing it raises whatever the overwrite flag and the
  output are, so a run that returns has found the input of every replicate of every
  family. In the parametric loop an existing output with overwrite off skips the work
  item before the input is opened: the world is unchanged, whether or not the input
  exists.
\<close>

theorem C10_load_before_skip_check:
  "(files st (sim_dir cfg t, i) = None \<longrightarrow>
      distance_item sk est cfg i t st = Inl (FileNotFoundError (sim_dir cfg t) i, st)) \<and>
   (distance_notebook seed sk est cfg order start = Inr finish \<longrightarrow>
      (\<forall>i < cfg_num_rounds cfg. \<forall>t \<in> set order. files start (sim_dir cfg t, i) \<noteq> None)) \<and>
   (\<not> par_overwrite pcfg \<longrightarrow> files pst (par_power_dir pcfg fam, j) \<noteq> None \<longrightarrow>
      parametric_item sc tr pest pcfg fam j pst = Inr pst)"
proof -
  have "files start (sim_dir cfg t, i) \<noteq> None"
    if "distance_notebook seed sk est cfg order start = Inr finish" and "i < cfg_num_rounds cfg"
      and "t \<in> set order" for i t
    using distance_loop_needs_inputs [OF distance_notebook_ok(2) [OF that(1)] that(2,3)]
    by simp
  then show ?thesis
    using distance_item_missing_input parametric_item_skip by blast
qed

theorem C10_load_before_skip_check_witness:
  "files world_with_output_only (''./simulations/power/mantel/'', 0) = Some (SummaryPickle example_summary) \<and>
   distance_item example_skbio example_estimator example_config 0 Mantel world_with_output_only =
     Inl (FileNotFoundError ''./simulations/data/mantel'' 0, world_with_output_only) \<and>
   files example_world (''./simulations/data/permanova'', 0) \<noteq> None \<and>
   files par_world_with_output_only (''./simulations/data/ttest_1'', 0) = None \<and>
   parametric_item example_scipy example_trad example_estimator par_example_config Ttest_1 0
       par_world_with_output_only = Inr par_world_with_output_only"
proof -
  have h1: "files world_with_output_only (sim_dir example_config Mantel, 0) = None"
    by (simp add: example_dirs world_with_output_only_def del: sim_dir.simps)
  have "\<not> isl (distance_notebook (\<lambda>n. n) example_skbio example_estimator example_config
      [Mantel, Permanova] example_world)"
    by code_simp
  then have h2: "distance_notebook (\<lambda>n. n) example_skbio example_estimator example_config
      [Mantel, Permanova] example_world =
      Inr (final_world (distance_notebook (\<lambda>n. n) example_skbio example_estimator example_config
        [Mantel, Permanova] example_world))"
    by (rule returned_final_world)
  have h3: "\<not> par_overwrite par_example_config"
    by (simp add: par_example_config_def par_settings_def)
  have h4: "files par_world_with_output_only (par_power_dir par_example_config Ttest_1, 0) \<noteq> None"
    by (simp add: par_example_dirs par_world_with_output_only_def del: par_power_dir.simps)
  have h5: "(0::nat) < cfg_num_rounds example_config" "Permanova \<in> set [Mantel, Permanova]"
    by (simp_all add: example_config_def)
  have out: "files world_with_output_only (''./simulations/power/mantel/'', 0) = Some (SummaryPickle example_summary)"
    and no_in: "files par_world_with_output_only (''./simulations/data/ttest_1'', 0) = None"
    by (simp_all add: world_with_output_only_def par_world_with_output_only_def)
  from C10_load_before_skip_check
         [where st = world_with_output_only and cfg = example_config and t = Mantel and i = 0
            and sk = example_skbio and est = example_estimator and seed = "\<lambda>n. n"
            and order = "[Mantel, Permanova]"
            and start = example_world
            and finish = "final_world (distance_notebook (\<lambda>n. n) example_skbio example_estimator
                 example_config [Mantel, Permanova] example_world)"
            and pcfg = par_example_config and pst = par_world_with_output_only and fam = Ttest_1
            and j = 0 and sc = example_scipy and tr = example_trad and pest = example_estimator]
  have "distance_item example_skbio example_estimator example_config 0 Mantel world_with_output_only =
      Inl (FileNotFoundError (sim_dir example_config Mantel) 0, world_with_output_only) \<and>
    files example_world (sim_dir example_config Permanova, 0) \<noteq> None \<and>
    parametric_item example_scipy example_trad example_estimator par_example_config Ttest_1 0
       par_world_with_output_only = Inr par_world_with_output_only"
    using h1 h2 h3 h4 h5 by blast
  then show ?thesis
    unfolding example_dirs using out no_in by blast
qed

section \<open>A work item that raises\<close>

lemma upt_split:
  assumes "i < n"
  shows "[0..<n] = [0..<i] @ i # [Suc i..<n]"
proof -
  have "[0..<i + (n - i)] = [0..<i] @ [i..<i + (n - i)]"
    by (rule upt_add_eq_append) simp
  then show ?thesis
    using assms by (simp add: upt_conv_Cons)
qed

text \<open>
  Claim C7, as the code has it. Neither loop handles exceptions. When the work item of
  family \<open>t\<close> and replicate \<open>i\<close> raises, after the work items before it have returned,
  the whole loop raises that exception, and the world it leaves is the world at the moment
  of the failure: no later work item is loaded, computed or written; what earlier work
  items wrote stays.
\<close>

theorem C7_failure_aborts_batch:
  "(i < cfg_num_rounds cfg \<longrightarrow>
    for_each (\<lambda>j. for_each (distance_item sk est cfg j) (before @ t # after)) [0..<i] st = Inr sta \<longrightarrow>
    for_each (distance_item sk est cfg i) before sta = Inr stb \<longrightarrow>
    distance_item sk est cfg i t stb = Inl (e, stc) \<longrightarrow>
    distance_loop sk est cfg (before @ t # after) st = Inl (e, stc)) \<and>
   (j < par_num_rounds pcfg \<longrightarrow>
    parametric_list = fams @ fam # later \<longrightarrow>
    for_each (\<lambda>f s. for_each (parametric_item sc tr pest pcfg f) [0..<par_num_rounds pcfg]
                      (ensure_dir (par_power_dir pcfg f) s)) fams pst = Inr psta \<longrightarrow>
    for_each (parametric_item sc tr pest pcfg fam) [0..<j]
      (ensure_dir (par_power_dir pcfg fam) psta) = Inr pstb \<longrightarrow>
    parametric_item sc tr pest pcfg fam j pstb = Inl (pe, pstc) \<longrightarrow>
    parametric_loop sc tr pest pcfg pst = Inl (pe, pstc))"
proof (intro conjI impI)
  assume i: "i < cfg_num_rounds cfg"
    and rounds: "for_each (\<lambda>j. for_each (distance_item sk est cfg j) (before @ t # after)) [0..<i] st = Inr sta"
    and fams: "for_each (distance_item sk est cfg i) before sta = Inr stb"
    and fail: "distance_item sk est cfg i t stb = Inl (e, stc)"
  have "for_each (distance_item sk est cfg i) (before @ t # after) sta = Inl (e, stc)"
    using fams fail by (rule for_each_abort)
  then show "distance_loop sk est cfg (before @ t # after) st = Inl (e, stc)"
    unfolding distance_loop_def upt_split [OF i]
    using rounds by (simp add: for_each_append)
next
  assume j: "j < par_num_rounds pcfg"
    and split: "parametric_list = fams @ fam # later"
    and earlier: "for_each (\<lambda>f s. for_each (parametric_item sc tr pest pcfg f) [0..<par_num_rounds pcfg]
                      (ensure_dir (par_power_dir pcfg f) s)) fams pst = Inr psta"
    and rounds: "for_each (parametric_item sc tr pest pcfg fam) [0..<j]
      (ensure_dir (par_power_dir pcfg fam) psta) = Inr pstb"
    and fail: "parametric_item sc tr pest pcfg fam j pstb = Inl (pe, pstc)"
  have "for_each (parametric_item sc tr pest pcfg fam) [0..<par_num_rounds pcfg]
      (ensure_dir (par_power_dir pcfg fam) psta) = Inl (pe, pstc)"
    unfolding upt_split [OF j] using rounds fail by (rule for_each_abort)
  then show "parametric_loop sc tr pest pcfg pst = Inl (pe, pstc)"
    unfolding parametric_loop_def split
    using earlier by (simp add: for_each_append del: par_power_dir.simps)
qed

text \<open>
  With the Mantel input missing and the families in the order Mantel, PERMANOVA, the
  loop raises at the first work item; with the input of the one-sample t test missing the
  parametric loop raises at its first work item, after creating that family's output
  directory.
\<close>

theorem C7_failure_aborts_batch_witness:
  "distance_loop example_skbio example_estimator example_config [Mantel, Permanova]
       world_without_mantel =
     Inl (FileNotFoundError ''./simulations/data/mantel'' 0, world_without_mantel) \<and>
   parametric_loop example_scipy example_trad example_estimator par_example_config
       par_world_without_ttest_1 =
     Inl (FileNotFoundError ''./simulations/data/ttest_1'' 0,
          ensure_dir ''./simulations/power/ttest_1'' par_world_without_ttest_1)"
proof -
  have h1: "(0::nat) < cfg_num_rounds example_config"
    by (simp add: example_config_def)
  have h2: "for_each (\<lambda>j. for_each (distance_item example_skbio example_estimator example_config j)
      ([] @ Mantel # [Permanova])) [0..<0] world_without_mantel = Inr world_without_mantel"
    by simp
  have h3: "for_each (distance_item example_skbio example_estimator example_config 0) []
      world_without_mantel = Inr world_without_mantel"
    by simp
  have h4: "distance_item example_skbio example_estimator example_config 0 Mantel world_without_mantel =
      Inl (FileNotFoundError ''./simulations/data/mantel'' 0, world_without_mantel)"
    using distance_item_missing_input
            [where st = world_without_mantel and cfg = example_config and t = Mantel and i = 0
               and sk = example_skbio and est = example_estimator]
    by (simp add: example_dirs world_without_mantel_def del: sim_dir.simps)
  have p1: "(0::nat) < par_num_rounds par_example_config"
    by (simp add: par_example_config_def)
  have p2: "parametric_list = [] @ Ttest_1 # [Ttest_ind, Anova_3, Anova_8, Correlation]"
    by (simp add: parametric_list_def)
  have p3: "for_each (\<lambda>f s. for_each (parametric_item example_scipy example_trad example_estimator
        par_example_config f) [0..<par_num_rounds par_example_config]
        (ensure_dir (par_power_dir par_example_config f) s)) [] par_world_without_ttest_1 =
      Inr par_world_without_ttest_1"
    by simp
  have p4: "for_each (parametric_item example_scipy example_trad example_estimator par_example_config
        Ttest_1) [0..<0] (ensure_dir (par_power_dir par_example_config Ttest_1) par_world_without_ttest_1) =
      Inr (ensure_dir (par_power_dir par_example_config Ttest_1) par_world_without_ttest_1)"
    by simp
  have p5: "parametric_item example_scipy example_trad example_estimator par_example_config Ttest_1 0
        (ensure_dir (par_power_dir par_example_config Ttest_1) par_world_without_ttest_1) =
      Inl (FileNotFoundError ''./simulations/data/ttest_1'' 0,
           ensure_dir (par_power_dir par_example_config Ttest_1) par_world_without_ttest_1)"
    using parametric_item_missing_input
            [where st = "ensure_dir (par_power_dir par_example_config Ttest_1) par_world_without_ttest_1"
               and cfg = par_example_config and fam = Ttest_1 and i = 0
               and sc = example_scipy and tr = example_trad and est = example_estimator]
    by (simp add: par_example_dirs par_world_without_ttest_1_def
          del: par_sim_dir.simps par_power_dir.simps)
  from C7_failure_aborts_batch
         [where i = 0 and cfg = example_config and sk = example_skbio and est = example_estimator
            and before = "[]" and t = Mantel and after = "[Permanova]"
            and st = world_without_mantel and sta = world_without_mantel
            and stb = world_without_mantel and stc = world_without_mantel
            and e = "FileNotFoundError ''./simulations/data/mantel'' 0"
            and j = 0 and pcfg = par_example_config and fams = "[]" and fam = Ttest_1
            and later = "[Ttest_ind, Anova_3, Anova_8, Correlation]"
            and sc = example_scipy and tr = example_trad and pest = example_estimator
            and pst = par_world_without_ttest_1 and psta = par_world_without_ttest_1
            and pstb = "ensure_dir (par_power_dir par_example_config Ttest_1) par_world_without_ttest_1"
            and pstc = "ensure_dir (par_power_dir par_example_config Ttest_1) par_world_without_ttest_1"
            and pe = "FileNotFoundError ''./simulations/data/ttest_1'' 0"]
       h1 h2 h3 h4 p1 p2 p3 p4 p5
  have "distance_loop example_skbio example_estimator example_config ([] @ Mantel # [Permanova])
       world_without_mantel =
     Inl (FileNotFoundError ''./simulations/data/mantel'' 0, world_without_mantel) \<and>
   parametric_loop example_scipy example_trad example_estimator par_example_config
       par_world_without_ttest_1 =
     Inl (FileNotFoundError ''./simulations/data/ttest_1'' 0,
          ensure_dir (par_power_dir par_example_config Ttest_1) par_world_without_ttest_1)"
    by blast
  then show ?thesis
    unfolding par_example_dirs by simp
qed

text \<open>
  Claim C7 as stated fails. The PERMANOVA input of replicate 0 is there and its work item
  on its own returns; but in the run the Mantel work item comes first and its input is
  missing, so the run raises and the PERMANOVA output is never written. In the parametric
  notebook the missing input of the one-sample t test likewise keeps the independent t
  test, whose input is there, from being processed.
\<close>

theorem C7_failure_isolated_counterexample:
  "\<not> isl (distance_item example_skbio example_estimator example_config 0 Permanova
            world_without_mantel) \<and>
   isl (distance_notebook (\<lambda>n. n) example_skbio example_estimator example_config
          [Mantel, Permanova] world_without_mantel) \<and>
   files (final_world (distance_notebook (\<lambda>n. n) example_skbio example_estimator example_config
          [Mantel, Permanova] world_without_mantel)) (''./simulations/power/permanova/'', 0) = None \<and>
   \<not> isl (parametric_item example_scipy example_trad example_estimator par_example_config
            Ttest_ind 0 par_world_without_ttest_1) \<and>
   isl (parametric_notebook example_scipy example_trad example_estimator par_example_config
          par_world_without_ttest_1) \<and>
   files (final_world (parametric_notebook example_scipy example_trad example_estimator
          par_example_config par_world_without_ttest_1)) (''./simulations/power/ttest_ind'', 0) = None"
  by code_simp

section \<open>Runs with overwrite off\<close>

text \<open>
  Claim C5. With overwrite off, a work item whose output exists computes nothing: the
  distance-based one only loads its input (and raises when the input is missing), the
  parametric one does nothing. A run
  leaves every file that existed before it as it was, whether it returns or raises. And
  after a run that returned, a second run returns too, with the same files and
  directories: the distance-based notebook has only reseeded the generator and loaded
  each input again, and the parametric notebook has changed nothing at all.
\<close>

theorem C5_overwrite_off_is_idempotent:
  "(\<not> cfg_overwrite cfg \<longrightarrow> files st (power_dir cfg t, i) \<noteq> None \<longrightarrow>
      distance_item sk est cfg i t st =
        (case files st (sim_dir cfg t, i) of
           None \<Rightarrow> Inl (FileNotFoundError (sim_dir cfg t) i, st)
         | Some simulation \<Rightarrow> Inr (log_event (Loaded (sim_dir cfg t) i) st))) \<and>
   (\<not> cfg_overwrite cfg \<longrightarrow> files w q = Some b \<longrightarrow>
      files (final_world (distance_notebook seed sk est cfg order w)) q = Some b) \<and>
   (\<not> cfg_overwrite cfg \<longrightarrow> distance_notebook seed sk est cfg order start = Inr finish \<longrightarrow>
      distance_notebook seed sk est cfg order finish =
        Inr (finish\<lparr>rng := seed 25,
                    trace := trace finish @
                      concat (map (\<lambda>i. map (\<lambda>t. Loaded (sim_dir cfg t) i) order)
                                [0..<cfg_num_rounds cfg])\<rparr>)) \<and>
   (\<not> par_overwrite pcfg \<longrightarrow> files pst (par_power_dir pcfg fam, j) \<noteq> None \<longrightarrow>
      parametric_item sc tr pest pcfg fam j pst = Inr pst) \<and>
   (\<not> par_overwrite pcfg \<longrightarrow> files pw pq = Some pb \<longrightarrow>
      files (final_world (parametric_notebook sc tr pest pcfg pw)) pq = Some pb) \<and>
   (\<not> par_overwrite pcfg \<longrightarrow> parametric_notebook sc tr pest pcfg pstart = Inr pfinish \<longrightarrow>
      parametric_notebook sc tr pest pcfg pfinish = Inr pfinish)"
proof -
  have "distance_item sk est cfg i t st =
        (case files st (sim_dir cfg t, i) of
           None \<Rightarrow> Inl (FileNotFoundError (sim_dir cfg t) i, st)
         | Some simulation \<Rightarrow> Inr (log_event (Loaded (sim_dir cfg t) i) st))"
    if "\<not> cfg_overwrite cfg" and "files st (power_dir cfg t, i) \<noteq> None"
    using that
    by (cases "files st (sim_dir cfg t, i)")
       (simp_all add: distance_item_missing_input distance_item_skip del: sim_dir.simps power_dir.simps)
  then show ?thesis
    using distance_notebook_keeps distance_notebook_second_run
      parametric_item_skip parametric_notebook_keeps parametric_notebook_second_run
    by (intro conjI impI) blast+
qed


text \<open>
  The Mantel output that was there before the run is still there after it, although the
  run computed the PERMANOVA summary; and a second run over the world a first run ended
  in only loads the two inputs again.
\<close>

theorem C5_overwrite_off_is_idempotent_witness:
  "distance_item example_skbio example_estimator example_config 0 Mantel world_with_output =
     Inr (log_event (Loaded ''./simulations/data/mantel'' 0) world_with_output) \<and>
   files (final_world (distance_notebook (\<lambda>n. n) example_skbio example_estimator example_config
            [Mantel, Permanova] world_with_output)) (''./simulations/power/mantel/'', 0) =
     Some (SummaryPickle example_summary) \<and>
   distance_notebook (\<lambda>n. n) example_skbio example_estimator example_config [Mantel, Permanova]
       (final_world (distance_notebook (\<lambda>n. n) example_skbio example_estimator example_config
          [Mantel, Permanova] example_world)) =
     Inr ((final_world (distance_notebook (\<lambda>n. n) example_skbio example_estimator example_config
             [Mantel, Permanova] example_world))
          \<lparr>rng := 25,
           trace := trace (final_world (distance_notebook (\<lambda>n. n) example_skbio example_estimator
                      example_config [Mantel, Permanova] example_world)) @
                    [Loaded ''./simulations/data/mantel'' 0,
                     Loaded ''./simulations/data/permanova'' 0]\<rparr>) \<and>
   parametric_item example_scipy example_trad example_estimator par_example_config Ttest_1 0
       par_world_with_output_only = Inr par_world_with_output_only \<and>
   files (final_world (parametric_notebook example_scipy example_trad example_estimator
            par_example_config par_world_with_output_only)) (''./simulations/power/ttest_1'', 0) =
     Some (SummaryPickle par_summary) \<and>
   parametric_notebook example_scipy example_trad example_estimator par_example_config
       (final_world (parametric_notebook example_scipy example_trad example_estimator
          par_example_config par_example_world)) =
     Inr (final_world (parametric_notebook example_scipy example_trad example_estimator
          par_example_config par_example_world))"
proof -
  have off: "\<not> cfg_overwrite example_config" "\<not> par_overwrite par_example_config"
    by (simp_all add: example_config_def dist_settings_def par_example_config_def par_settings_def)
  have d1: "files world_with_output (sim_dir example_config Mantel, 0) =
      Some (SimulationPickle (MatrixPair [0, 1, 2, 3, 4] [0, 1, 2, 3, 4]))"
    and d2: "files world_with_output (power_dir example_config Mantel, 0) \<noteq> None"
    and d3: "files world_with_output (''./simulations/power/mantel/'', 0) =
      Some (SummaryPickle example_summary)"
    by (simp_all add: example_dirs world_with_output_def example_world_def del: sim_dir.simps power_dir.simps)
  have "\<not> isl (distance_notebook (\<lambda>n. n) example_skbio example_estimator example_config
      [Mantel, Permanova] example_world)"
    by code_simp
  then have d4: "distance_notebook (\<lambda>n. n) example_skbio example_estimator example_config
      [Mantel, Permanova] example_world =
      Inr (final_world (distance_notebook (\<lambda>n. n) example_skbio example_estimator example_config
        [Mantel, Permanova] example_world))"
    by (rule returned_final_world)
  have p1: "files par_world_with_output_only (par_power_dir par_example_config Ttest_1, 0) \<noteq> None"
    and p2: "files par_world_with_output_only (''./simulations/power/ttest_1'', 0) =
      Some (SummaryPickle par_summary)"
    by (simp_all add: par_example_dirs par_world_with_output_only_def del: par_power_dir.simps)
  have "\<not> isl (parametric_notebook example_scipy example_trad example_estimator
      par_example_config par_example_world)"
    by code_simp
  then have p3: "parametric_notebook example_scipy example_trad example_estimator
      par_example_config par_example_world =
      Inr (final_world (parametric_notebook example_scipy example_trad example_estimator
        par_example_config par_example_world))"
    by (rule returned_final_world)
  have loads: "concat (map (\<lambda>i. map (\<lambda>t. Loaded (sim_dir example_config t) i) [Mantel, Permanova])
      [0..<cfg_num_rounds example_config]) =
      [Loaded ''./simulations/data/mantel'' 0, Loaded ''./simulations/data/permanova'' 0]"
  proof -
    have "cfg_num_rounds example_config = 1"
      by (simp add: example_config_def)
    then show ?thesis
      by (simp add: example_dirs del: sim_dir.simps)
  qed
  note inst = C5_overwrite_off_is_idempotent
         [where cfg = example_config and st = world_with_output and t = Mantel and i = 0
            and sk = example_skbio and est = example_estimator and seed = "\<lambda>n. n"
            and order = "[Mantel, Permanova]" and w = world_with_output
            and q = "(''./simulations/power/mantel/'', 0)" and b = "SummaryPickle example_summary"
            and start = example_world
            and finish = "final_world (distance_notebook (\<lambda>n. n) example_skbio example_estimator
                 example_config [Mantel, Permanova] example_world)"
            and pcfg = par_example_config and pst = par_world_with_output_only and fam = Ttest_1
            and j = 0 and sc = example_scipy and tr = example_trad and pest = example_estimator
            and pw = par_world_with_output_only and pq = "(''./simulations/power/ttest_1'', 0)"
            and pb = "SummaryPickle par_summary" and pstart = par_example_world
            and pfinish = "final_world (parametric_notebook example_scipy example_trad
                 example_estimator par_example_config par_example_world)"]
  have d5: "files world_with_output (''./simulations/data/mantel'', 0) =
      Some (SimulationPickle (MatrixPair [0, 1, 2, 3, 4] [0, 1, 2, 3, 4]))"
    using d1 unfolding example_dirs .
  from inst off d2 d3 d4 p1 p2 p3 show ?thesis
    unfolding loads example_dirs d5 option.case by blast
qed

section \<open>The summary record\<close>

lemma with_rng_Inr:
  "with_rng f st = Inr (x, st') \<longleftrightarrow> (\<exists>w. f (rng st) = (Inr x, w) \<and> st' = st\<lparr>rng := w\<rparr>)"
  by (auto simp: with_rng_def split: prod.splits sum.splits)

lemma permanova_summary_written:
  assumes "calculate_permanova_power sk est (SimulationPickle (GroupedMatrix dm groups)) a d fp st = Inr st'"
  shows "\<exists>pwr p w1 w2.
      est (permanova_test sk dm groups d) (permanova_kwargs groups a) (rng st) = (Inr pwr, w1) \<and>
      permanova_test sk dm groups d (permanova_samples groups) w1 = (Inr p, w2) \<and>
      files st' fp = Some (SummaryPickle
        \<lparr>ps_emperical = pwr, ps_traditional = None, ps_original_p = p,
         ps_num_obs = length (ids_with_label groups 0),
         ps_counts = kw_counts (permanova_kwargs groups a), ps_alpha = a, ps_depth = None\<rparr>)"
  using assms
  by (auto simp: calculate_permanova_power_def with_rng_Inr Let_def dump_pickle_def log_event_def
      permanova_summary_def permanova_samples_def permanova_kwargs_def
      split: sum.splits prod.splits)

lemma mantel_summary_written:
  assumes "calculate_mantel_power sk est (SimulationPickle (MatrixPair x y)) fp a d st = Inr st'"
  shows "\<exists>pwr p w1 w2.
      est (mantel_test sk x (Some y) d) (mantel_kwargs (dm_ids sk x) a) (rng st) = (Inr pwr, w1) \<and>
      mantel_test sk x (Some y) d [dm_ids sk x] w1 = (Inr p, w2) \<and>
      files st' fp = Some (SummaryPickle
        \<lparr>ps_emperical = pwr, ps_traditional = None, ps_original_p = p,
         ps_num_obs = length (dm_ids sk x),
         ps_counts = kw_counts (mantel_kwargs (dm_ids sk x) a), ps_alpha = a, ps_depth = Some d\<rparr>)"
  using assms
  by (auto simp: calculate_mantel_power_def with_rng_Inr Let_def dump_pickle_def log_event_def
      mantel_summary_def mantel_kwargs_def
      split: sum.splits prod.splits)

lemma round_summary_written:
  assumes "parametric_item sc tr est cfg fam i st = Inr st'"
    and "par_overwrite cfg \<or> files st (par_power_dir cfg fam, i) = None"
  shows "\<exists>sample0 rest traditional emp p w1.
      files st (par_sim_dir cfg fam, i) = Some (SimulationPickle (sample0 # rest)) \<and>
      trad_power tr cfg fam (sample0 # rest) = Inr traditional \<and>
      est (pure_test (family_test sc fam)) (empr_power_kwargs cfg fam (sample0 # rest)) (rng st) =
        (Inr emp, w1) \<and>
      family_test sc fam (sample0 # rest) = Inr p \<and>
      files st' (par_power_dir cfg fam, i) = Some (SummaryPickle
        \<lparr>ps_emperical = emp, ps_traditional = Some traditional, ps_original_p = p,
         ps_num_obs = length sample0, ps_counts = par_counts cfg, ps_alpha = par_alpha cfg,
         ps_depth = None\<rparr>)"
  using assms
  by (auto simp: parametric_item_def with_rng_Inr Let_def dump_pickle_def log_event_def
      load_pickle_def file_exists_def round_summary_def
      simp del: par_power_dir.simps par_sim_dir.simps
      split: sum.splits prod.splits pickle.splits list.splits option.splits if_splits)


text \<open>
  Claim C4, as the code has it. Whenever a wrapper or the parametric loop body returns
  after computing, the pickle at the output path is a summary that holds the curve the
  estimator returned, the closed-form curve (\<open>None\<close> in the distance-based notebook), the
  p-value the same test returned on the samples that were handed to the estimator, the
  counts schedule that was handed to the estimator, and alpha. Its \<^verbatim>\<open>num_obs\<close> is the
  size of the first sample: the observations labelled 0 for PERMANOVA, all identifiers
  for Mantel, the first vector for a parametric family. The Mantel summary holds the
  number of permutations as well.
\<close>

theorem C4_summary_record:
  "(calculate_permanova_power sk est (SimulationPickle (GroupedMatrix dm groups)) a d fp st = Inr finish \<longrightarrow>
      (\<exists>pwr p w1 w2.
         est (permanova_test sk dm groups d) (permanova_kwargs groups a) (rng st) = (Inr pwr, w1) \<and>
         permanova_test sk dm groups d (permanova_samples groups) w1 = (Inr p, w2) \<and>
         files finish fp = Some (SummaryPickle
           \<lparr>ps_emperical = pwr, ps_traditional = None, ps_original_p = p,
            ps_num_obs = length (ids_with_label groups 0),
            ps_counts = kw_counts (permanova_kwargs groups a), ps_alpha = a, ps_depth = None\<rparr>))) \<and>
   (calculate_mantel_power sk est (SimulationPickle (MatrixPair x y)) mfp ma md mst = Inr mfinish \<longrightarrow>
      (\<exists>pwr p w1 w2.
         est (mantel_test sk x (Some y) md) (mantel_kwargs (dm_ids sk x) ma) (rng mst) = (Inr pwr, w1) \<and>
         mantel_test sk x (Some y) md [dm_ids sk x] w1 = (Inr p, w2) \<and>
         files mfinish mfp = Some (SummaryPickle
           \<lparr>ps_emperical = pwr, ps_traditional = None, ps_original_p = p,
            ps_num_obs = length (dm_ids sk x),
            ps_counts = kw_counts (mantel_kwargs (dm_ids sk x) ma), ps_alpha = ma,
            ps_depth = Some md\<rparr>))) \<and>
   (parametric_item sc tr pest pcfg fam i pst = Inr pfinish \<longrightarrow>
    (par_overwrite pcfg \<or> files pst (par_power_dir pcfg fam, i) = None) \<longrightarrow>
      (\<exists>sample0 rest traditional emp p w1.
         files pst (par_sim_dir pcfg fam, i) = Some (SimulationPickle (sample0 # rest)) \<and>
         trad_power tr pcfg fam (sample0 # rest) = Inr traditional \<and>
         pest (pure_test (family_test sc fam)) (empr_power_kwargs pcfg fam (sample0 # rest)) (rng pst) =
           (Inr emp, w1) \<and>
         family_test sc fam (sample0 # rest) = Inr p \<and>
         files pfinish (par_power_dir pcfg fam, i) = Some (SummaryPickle
           \<lparr>ps_emperical = emp, ps_traditional = Some traditional, ps_original_p = p,
            ps_num_obs = length sample0, ps_counts = par_counts pcfg, ps_alpha = par_alpha pcfg,
            ps_depth = None\<rparr>)))"
proof (intro conjI impI)
  assume "calculate_permanova_power sk est (SimulationPickle (GroupedMatrix dm groups)) a d fp st = Inr finish"
  then show "\<exists>pwr p w1 w2.
         est (permanova_test sk dm groups d) (permanova_kwargs groups a) (rng st) = (Inr pwr, w1) \<and>
         permanova_test sk dm groups d (permanova_samples groups) w1 = (Inr p, w2) \<and>
         files finish fp = Some (SummaryPickle
           \<lparr>ps_emperical = pwr, ps_traditional = None, ps_original_p = p,
            ps_num_obs = length (ids_with_label groups 0),
            ps_counts = kw_counts (permanova_kwargs groups a), ps_alpha = a, ps_depth = None\<rparr>)"
    by (rule permanova_summary_written)
next
  assume "calculate_mantel_power sk est (SimulationPickle (MatrixPair x y)) mfp ma md mst = Inr mfinish"
  then show "\<exists>pwr p w1 w2.
         est (mantel_test sk x (Some y) md) (mantel_kwargs (dm_ids sk x) ma) (rng mst) = (Inr pwr, w1) \<and>
         mantel_test sk x (Some y) md [dm_ids sk x] w1 = (Inr p, w2) \<and>
         files mfinish mfp = Some (SummaryPickle
           \<lparr>ps_emperical = pwr, ps_traditional = None, ps_original_p = p,
            ps_num_obs = length (dm_ids sk x),
            ps_counts = kw_counts (mantel_kwargs (dm_ids sk x) ma), ps_alpha = ma,
            ps_depth = Some md\<rparr>)"
    by (rule mantel_summary_written)
next
  assume "parametric_item sc tr pest pcfg fam i pst = Inr pfinish"
    and "par_overwrite pcfg \<or> files pst (par_power_dir pcfg fam, i) = None"
  then show "\<exists>sample0 rest traditional emp p w1.
         files pst (par_sim_dir pcfg fam, i) = Some (SimulationPickle (sample0 # rest)) \<and>
         trad_power tr pcfg fam (sample0 # rest) = Inr traditional \<and>
         pest (pure_test (family_test sc fam)) (empr_power_kwargs pcfg fam (sample0 # rest)) (rng pst) =
           (Inr emp, w1) \<and>
         family_test sc fam (sample0 # rest) = Inr p \<and>
         files pfinish (par_power_dir pcfg fam, i) = Some (SummaryPickle
           \<lparr>ps_emperical = emp, ps_traditional = Some traditional, ps_original_p = p,
            ps_num_obs = length sample0, ps_counts = par_counts pcfg, ps_alpha = par_alpha pcfg,
            ps_depth = None\<rparr>)"
    by (rule round_summary_written)
qed

text \<open>
  Claim C4 as stated fails at \<^verbatim>\<open>num_obs\<close>. Of five observations, two labelled 0 and
  three labelled 1, the PERMANOVA summary records 2; of two samples of three and four
  values, the summary of the independent t test records 3.
\<close>

theorem C4_total_count_counterexample:
  "files (final_world (calculate_permanova_power example_skbio example_estimator
       (SimulationPickle (GroupedMatrix [0, 1, 2, 3, 4] small_groups)) (5 / 100) 99
       (''./simulations/power/permanova/'', 0) example_world))
     (''./simulations/power/permanova/'', 0) =
     Some (SummaryPickle
       \<lparr>ps_emperical = [[], [], [], [], []], ps_traditional = None, ps_original_p = 1 / 100,
        ps_num_obs = 2, ps_counts = [], ps_alpha = 5 / 100, ps_depth = None\<rparr>) \<and>
   length small_groups = 5 \<and>
   length (hstack (permanova_samples small_groups)) = 5 \<and>
   files (final_world (parametric_item example_scipy example_trad example_estimator
       par_example_config Ttest_ind 0 par_example_world))
     (''./simulations/power/ttest_ind'', 0) =
     Some (SummaryPickle
       \<lparr>ps_emperical = [[1, 1], [1, 1], [1, 1]], ps_traditional = Some [[1, 1]],
        ps_original_p = 3 / 100, ps_num_obs = 3, ps_counts = [5, 15], ps_alpha = 5 / 100,
        ps_depth = None\<rparr>) \<and>
   files par_example_world (''./simulations/data/ttest_ind'', 0) =
     Some (SimulationPickle [[1, 2, 3], [4, 5, 6, 7]])"
  by code_simp


text \<open>
  The three records on concrete inputs: 32 observations in two groups of 16 for
  PERMANOVA, 40 identifiers for Mantel, samples of three and four values for the
  independent t test.
\<close>

theorem C4_summary_record_witness:
  "files (final_world (calculate_permanova_power example_skbio example_estimator
       (SimulationPickle (GroupedMatrix [0..<32] example_groups)) (5 / 100) 99
       (''./simulations/power/permanova/'', 0) example_world))
     (''./simulations/power/permanova/'', 0) =
     Some (SummaryPickle
       \<lparr>ps_emperical = [[1], [1], [1], [1], [1]], ps_traditional = None, ps_original_p = 1 / 100,
        ps_num_obs = 16, ps_counts = [5], ps_alpha = 5 / 100, ps_depth = None\<rparr>) \<and>
   files (final_world (calculate_mantel_power example_skbio example_estimator
       (SimulationPickle (MatrixPair [0..<40] [0..<40])) (''./simulations/power/mantel/'', 0)
       (5 / 100) 99 example_world))
     (''./simulations/power/mantel/'', 0) =
     Some (SummaryPickle
       \<lparr>ps_emperical = [[1, 1, 1], [1, 1, 1], [1, 1, 1], [1, 1, 1], [1, 1, 1]],
        ps_traditional = None, ps_original_p = 1 / 100,
        ps_num_obs = 40, ps_counts = [5, 15, 25], ps_alpha = 5 / 100, ps_depth = Some 99\<rparr>) \<and>
   files (final_world (parametric_item example_scipy example_trad example_estimator
       par_example_config Ttest_ind 0 par_example_world))
     (''./simulations/power/ttest_ind'', 0) =
     Some (SummaryPickle
       \<lparr>ps_emperical = [[1, 1], [1, 1], [1, 1]], ps_traditional = Some [[1, 1]],
        ps_original_p = 3 / 100, ps_num_obs = 3, ps_counts = [5, 15], ps_alpha = 5 / 100,
        ps_depth = None\<rparr>)"
proof -
  let ?perm = "calculate_permanova_power example_skbio example_estimator
       (SimulationPickle (GroupedMatrix [0..<32] example_groups)) (5 / 100) 99
       (''./simulations/power/permanova/'', 0) example_world"
  let ?mant = "calculate_mantel_power example_skbio example_estimator
       (SimulationPickle (MatrixPair [0..<40] [0..<40])) (''./simulations/power/mantel/'', 0)
       (5 / 100) 99 example_world"
  let ?par = "parametric_item example_scipy example_trad example_estimator
       par_example_config Ttest_ind 0 par_example_world"
  have "\<not> isl ?perm" by code_simp
  then have h1: "?perm = Inr (final_world ?perm)" by (rule returned_final_world)
  have "\<not> isl ?mant" by code_simp
  then have h2: "?mant = Inr (final_world ?mant)" by (rule returned_final_world)
  have "\<not> isl ?par" by code_simp
  then have h3: "?par = Inr (final_world ?par)" by (rule returned_final_world)
  have h4: "par_overwrite par_example_config \<or>
      files par_example_world (par_power_dir par_example_config Ttest_ind, 0) = None"
    by (simp add: par_example_dirs par_example_world_def del: par_power_dir.simps)
  note inst = C4_summary_record
      [where sk = example_skbio and est = example_estimator and dm = "[0..<32]"
         and groups = example_groups and a = "5 / 100" and d = 99
         and fp = "(''./simulations/power/permanova/'', 0)" and st = example_world
         and finish = "final_world ?perm"
         and x = "[0..<40]" and y = "[0..<40]" and mfp = "(''./simulations/power/mantel/'', 0)"
         and ma = "5 / 100" and md = 99 and mst = example_world and mfinish = "final_world ?mant"
         and sc = example_scipy and tr = example_trad and pest = example_estimator
         and pcfg = par_example_config and fam = Ttest_ind and i = 0 and pst = par_example_world
         and pfinish = "final_world ?par"]
  have rng0: "rng example_world = 0" "rng par_example_world = 0"
    by (simp_all add: example_world_def par_example_world_def)
  have perm_values:
    "\<And>T. example_estimator T (permanova_kwargs example_groups (5 / 100)) 0 =
       (Inr [[1], [1], [1], [1], [1]], 1)"
    "permanova_test example_skbio [0..<32] example_groups 99 (permanova_samples example_groups) (Suc 0) =
       (Inr (1 / 100), 2)"
    "length (ids_with_label example_groups 0) = 16"
    "kw_counts (permanova_kwargs example_groups (5 / 100)) = [5]"
    by code_simp+
  have mant_values:
    "dm_ids example_skbio [0..<40] = [0..<40]"
    "\<And>T. example_estimator T (mantel_kwargs [0..<40] (5 / 100)) 0 =
       (Inr [[1, 1, 1], [1, 1, 1], [1, 1, 1], [1, 1, 1], [1, 1, 1]], 1)"
    "mantel_test example_skbio [0..<40] (Some [0..<40]) 99 [[0..<40]] (Suc 0) = (Inr (1 / 100), 2)"
    "length [0..<40] = 40"
    "kw_counts (mantel_kwargs [0..<40] (5 / 100)) = [5, 15, 25]"
    by code_simp+
  have par_values:
    "files par_example_world (par_sim_dir par_example_config Ttest_ind, 0) =
       Some (SimulationPickle [[1, 2, 3], [4, 5, 6, 7]])"
    "trad_power example_trad par_example_config Ttest_ind [[1, 2, 3], [4, 5, 6, 7]] = Inr [[1, 1]]"
    "\<And>T. example_estimator T
       (empr_power_kwargs par_example_config Ttest_ind [[1, 2, 3], [4, 5, 6, 7 :: int]]) 0 =
       (Inr [[1, 1], [1, 1], [1, 1]], 1)"
    "par_counts par_example_config = [5, 15]"
    "par_alpha par_example_config = 5 / 100"
    "family_test example_scipy Ttest_ind [[1, 2, 3], [4, 5, 6, 7]] = Inr (3 / 100)"
    by code_simp+
  from inst h1 obtain pwr p w1 w2 where
      "example_estimator (permanova_test example_skbio [0..<32] example_groups 99)
         (permanova_kwargs example_groups (5 / 100)) (rng example_world) = (Inr pwr, w1)"
      "permanova_test example_skbio [0..<32] example_groups 99 (permanova_samples example_groups) w1 =
         (Inr p, w2)"
      "files (final_world ?perm) (''./simulations/power/permanova/'', 0) = Some (SummaryPickle
           \<lparr>ps_emperical = pwr, ps_traditional = None, ps_original_p = p,
            ps_num_obs = length (ids_with_label example_groups 0),
            ps_counts = kw_counts (permanova_kwargs example_groups (5 / 100)), ps_alpha = 5 / 100,
            ps_depth = None\<rparr>)"
    by blast
  then have c1: "files (final_world ?perm) (''./simulations/power/permanova/'', 0) =
     Some (SummaryPickle
       \<lparr>ps_emperical = [[1], [1], [1], [1], [1]], ps_traditional = None, ps_original_p = 1 / 100,
        ps_num_obs = 16, ps_counts = [5], ps_alpha = 5 / 100, ps_depth = None\<rparr>)"
    unfolding rng0 perm_values by (auto simp: perm_values)
  from inst h2 obtain pwr p w1 w2 where
      "example_estimator (mantel_test example_skbio [0..<40] (Some [0..<40]) 99)
         (mantel_kwargs (dm_ids example_skbio [0..<40]) (5 / 100)) (rng example_world) = (Inr pwr, w1)"
      "mantel_test example_skbio [0..<40] (Some [0..<40]) 99 [dm_ids example_skbio [0..<40]] w1 =
         (Inr p, w2)"
      "files (final_world ?mant) (''./simulations/power/mantel/'', 0) = Some (SummaryPickle
           \<lparr>ps_emperical = pwr, ps_traditional = None, ps_original_p = p,
            ps_num_obs = length (dm_ids example_skbio [0..<40]),
            ps_counts = kw_counts (mantel_kwargs (dm_ids example_skbio [0..<40]) (5 / 100)),
            ps_alpha = 5 / 100, ps_depth = Some 99\<rparr>)"
    by blast
  then have c2: "files (final_world ?mant) (''./simulations/power/mantel/'', 0) =
     Some (SummaryPickle
       \<lparr>ps_emperical = [[1, 1, 1], [1, 1, 1], [1, 1, 1], [1, 1, 1], [1, 1, 1]],
        ps_traditional = None, ps_original_p = 1 / 100,
        ps_num_obs = 40, ps_counts = [5, 15, 25], ps_alpha = 5 / 100, ps_depth = Some 99\<rparr>)"
    unfolding rng0 mant_values by (auto simp: mant_values)
  from inst h3 h4 obtain sample0 rest traditional emp p w1 where
      loaded: "files par_example_world (par_sim_dir par_example_config Ttest_ind, 0) =
         Some (SimulationPickle (sample0 # rest))"
      and computed: "trad_power example_trad par_example_config Ttest_ind (sample0 # rest) = Inr traditional"
      "example_estimator (pure_test (family_test example_scipy Ttest_ind))
         (empr_power_kwargs par_example_config Ttest_ind (sample0 # rest)) (rng par_example_world) =
         (Inr emp, w1)"
      "family_test example_scipy Ttest_ind (sample0 # rest) = Inr p"
      and written: "files (final_world ?par) (par_power_dir par_example_config Ttest_ind, 0) =
         Some (SummaryPickle
           \<lparr>ps_emperical = emp, ps_traditional = Some traditional, ps_original_p = p,
            ps_num_obs = length sample0, ps_counts = par_counts par_example_config,
            ps_alpha = par_alpha par_example_config, ps_depth = None\<rparr>)"
    by blast
  from loaded have samples: "sample0 = [1, 2, 3]" "rest = [[4, 5, 6, 7]]"
    unfolding par_values by simp_all
  from computed have "traditional = [[1, 1]]" "emp = [[1, 1], [1, 1], [1, 1]]" "p = 3 / 100"
    unfolding samples rng0 par_values by simp_all
  with written have c3: "files (final_world ?par) (''./simulations/power/ttest_ind'', 0) =
     Some (SummaryPickle
       \<lparr>ps_emperical = [[1, 1], [1, 1], [1, 1]], ps_traditional = Some [[1, 1]],
        ps_original_p = 3 / 100, ps_num_obs = 3, ps_counts = [5, 15], ps_alpha = 5 / 100,
        ps_depth = None\<rparr>)"
    unfolding samples par_values par_example_dirs by simp
  from c1 c2 c3 show ?thesis by blast
qed

section \<open>The estimator calls of a run\<close>

lemma invocations_append [simp]: "invocations (xs @ ys) = invocations xs @ invocations ys"
  by (induction xs rule: invocations.induct) simp_all










lemma calls_made_same_trace:
  "trace st0 = trace st \<Longrightarrow> calls_made st0 st' = calls_made st st'"
  by (simp add: calls_made_def)










section \<open>The sampling mode and the draw mode of every call\<close>






end
